theory Spec2Isabelle
  imports Main
begin

section \<open>image-rename: tag resolution, pattern rendering and the date index collector\<close>

text \<open>
  The development follows the Go sources of the repository: the date index collector
  (package lib) and the renderer of main.go (TimestampProp, FileProp,
  ExtractFileOutputTags, ParseTagProperties, ReplaceTagInPattern, GetFileTagValue,
  GetExifTagValue, GetTagValue, GetFileCaptureTime, IncrementCaptureIndex, ApplyPattern).

  Go strings are byte strings, so a string is a \<open>char list\<close>. The packages
  \<open>strings\<close> and \<open>filepath\<close> work on the bytes; the template scanner ranges
  over the runes of the template and writes runes back, and is modelled with the UTF-8
  decoding and encoding that go with it. Go's \<open>int\<close> is modelled by \<open>int\<close>: the
  counters only grow by one per file, and a batch of \<open>2^63\<close> files does not exist.
\<close>

subsection \<open>Timestamps and file attributes\<close>

text \<open>
  A \<open>time.Time\<close> is represented by what its accessor methods return: the calendar
  fields, \<open>Unix()\<close>, \<open>Weekday()\<close> (0 is Sunday), the name of its location
  and the offset of its zone in seconds east of UTC.
\<close>

record time =
  Year :: int
  Month :: int
  Day :: int
  Hour :: int
  Minute :: int
  Second :: int
  Nanosecond :: int
  Unix :: int
  Weekday :: nat
  Location :: string
  ZoneOffset :: int

text \<open>The zero value of \<open>time.Time\<close>: January 1 of year 1, 00:00:00 UTC, a Monday.\<close>

definition zero_Time :: time where
  "zero_Time = \<lparr>Year = 1, Month = 1, Day = 1, Hour = 0, Minute = 0, Second = 0,
     Nanosecond = 0, Unix = - 62135596800, Weekday = 1, Location = ''UTC'', ZoneOffset = 0\<rparr>"

text \<open>What \<open>os.FileInfo\<close> gives to this program.\<close>

record FileInfo =
  Name :: string
  Size :: int
  ModTime :: time

subsection \<open>The date index collector\<close>

text \<open>
  The three Go maps are partial functions; the nested maps of \<open>ByMonth\<close> and
  \<open>ByDay\<close> are maps of maps, as in the source.
\<close>

record DateIndexCollector =
  Count :: int
  ByYear :: "int \<rightharpoonup> int"
  ByMonth :: "int \<rightharpoonup> (int \<rightharpoonup> int)"
  ByDay :: "int \<rightharpoonup> (int \<rightharpoonup> (int \<rightharpoonup> int))"

definition NewDateIndexCollector :: DateIndexCollector where
  "NewDateIndexCollector =
     \<lparr>Count = 0, ByYear = Map.empty, ByMonth = Map.empty, ByDay = Map.empty\<rparr>"

definition Len :: "DateIndexCollector \<Rightarrow> int" where
  "Len dtic = Count dtic"

text \<open>
  A Go index expression \<open>m[k]\<close> on a key that is absent reads the zero value of the
  element type and inserts nothing: \<open>0\<close> for a counter, the nil map (which reads as
  the empty map) for a nested map.
\<close>

definition index_int :: "('k \<rightharpoonup> int) \<Rightarrow> 'k \<Rightarrow> int" where
  "index_int m k = (case m k of None \<Rightarrow> 0 | Some v \<Rightarrow> v)"

definition index_map :: "('k \<rightharpoonup> ('j \<rightharpoonup> 'v)) \<Rightarrow> 'k \<Rightarrow> ('j \<rightharpoonup> 'v)" where
  "index_map m k = (case m k of None \<Rightarrow> Map.empty | Some v \<Rightarrow> v)"

text \<open>
  \<open>Add\<close>, statement by statement: the year counter (line 30 of the source), the
  month counter with the creation of the year's map when the year is new (lines 32 to 35),
  the day counter with the creation of the year's and the month's maps (lines 37 to 43).
  An inner map is shared by reference in Go, so an increment through the nested maps is
  an update of the outer entries here.
\<close>

definition Add_year :: "DateIndexCollector \<Rightarrow> int \<Rightarrow> DateIndexCollector" where
  "Add_year dtic y = dtic\<lparr>ByYear := (ByYear dtic)(y \<mapsto> index_int (ByYear dtic) y + 1)\<rparr>"

definition Add_month :: "DateIndexCollector \<Rightarrow> int \<Rightarrow> int \<Rightarrow> DateIndexCollector" where
  "Add_month dtic y m =
     (let byMonth = (case ByMonth dtic y of
                       None \<Rightarrow> (ByMonth dtic)(y \<mapsto> Map.empty)
                     | Some months \<Rightarrow> ByMonth dtic)
      in dtic\<lparr>ByMonth := byMonth(y \<mapsto>
            (index_map byMonth y)(m \<mapsto> index_int (index_map byMonth y) m + 1))\<rparr>)"

definition Add_day :: "DateIndexCollector \<Rightarrow> int \<Rightarrow> int \<Rightarrow> int \<Rightarrow> DateIndexCollector" where
  "Add_day dtic y m d =
     (let byDay = (case ByDay dtic y of
                     None \<Rightarrow> (ByDay dtic)(y \<mapsto> Map.empty)
                   | Some months \<Rightarrow> ByDay dtic);
          byDay' = (case index_map byDay y m of
                      None \<Rightarrow> byDay(y \<mapsto> (index_map byDay y)(m \<mapsto> Map.empty))
                    | Some days \<Rightarrow> byDay)
      in dtic\<lparr>ByDay := byDay'(y \<mapsto>
            (index_map byDay' y)(m \<mapsto>
               (index_map (index_map byDay' y) m)(d \<mapsto>
                  index_int (index_map (index_map byDay' y) m) d + 1)))\<rparr>)"

definition Add :: "DateIndexCollector \<Rightarrow> time \<Rightarrow> DateIndexCollector" where
  "Add dtic timestamp =
     Add_day
       (Add_month
          (Add_year (dtic\<lparr>Count := Count dtic + 1\<rparr>) (Year timestamp))
          (Year timestamp) (Month timestamp))
       (Year timestamp) (Month timestamp) (Day timestamp)"

text \<open>
  The three lookups have value receivers and contain no assignment. Each returns the
  counter it read together with the collector as the call leaves it.
\<close>

definition GetIndexByYear :: "DateIndexCollector \<Rightarrow> time \<Rightarrow> int \<times> DateIndexCollector" where
  "GetIndexByYear dtic timestamp = (index_int (ByYear dtic) (Year timestamp), dtic)"

definition GetIndexByMonth :: "DateIndexCollector \<Rightarrow> time \<Rightarrow> int \<times> DateIndexCollector" where
  "GetIndexByMonth dtic timestamp =
     (case ByMonth dtic (Year timestamp) of
        Some months \<Rightarrow>
          (case months (Month timestamp) of
             Some monthIndex \<Rightarrow> (monthIndex, dtic)
           | None \<Rightarrow> (0, dtic))
      | None \<Rightarrow> (0, dtic))"

definition GetIndexByDay :: "DateIndexCollector \<Rightarrow> time \<Rightarrow> int \<times> DateIndexCollector" where
  "GetIndexByDay dtic timestamp =
     (case ByDay dtic (Year timestamp) of
        Some months \<Rightarrow>
          (case months (Month timestamp) of
             Some days \<Rightarrow>
               (case days (Day timestamp) of
                  Some dayIndex \<Rightarrow> (dayIndex, dtic)
                | None \<Rightarrow> (0, dtic))
           | None \<Rightarrow> (0, dtic))
      | None \<Rightarrow> (0, dtic))"

text \<open>The collector after a sequence of \<open>Add\<close> calls, in order.\<close>

definition AddAll :: "DateIndexCollector \<Rightarrow> time list \<Rightarrow> DateIndexCollector" where
  "AddAll dtic timestamps = foldl Add dtic timestamps"

text \<open>The number of timestamps of a sequence that fall in a year, a month, a day.\<close>

definition adds_in_year :: "time list \<Rightarrow> int \<Rightarrow> int" where
  "adds_in_year timestamps y = int (length (filter (\<lambda>u. Year u = y) timestamps))"

definition adds_in_month :: "time list \<Rightarrow> int \<Rightarrow> int \<Rightarrow> int" where
  "adds_in_month timestamps y m =
     int (length (filter (\<lambda>u. Year u = y \<and> Month u = m) timestamps))"

definition adds_in_day :: "time list \<Rightarrow> int \<Rightarrow> int \<Rightarrow> int \<Rightarrow> int" where
  "adds_in_day timestamps y m d =
     int (length (filter (\<lambda>u. Year u = y \<and> Month u = m \<and> Day u = d) timestamps))"

subsection \<open>Formatting: strconv, fmt and time\<close>

definition digit_char :: "nat \<Rightarrow> char" where
  "digit_char d =
     (if d = 0 then CHR ''0'' else if d = 1 then CHR ''1'' else if d = 2 then CHR ''2''
      else if d = 3 then CHR ''3'' else if d = 4 then CHR ''4'' else if d = 5 then CHR ''5''
      else if d = 6 then CHR ''6'' else if d = 7 then CHR ''7'' else if d = 8 then CHR ''8''
      else CHR ''9'')"

fun decimal :: "nat \<Rightarrow> string" where
  "decimal n = (if n < 10 then [digit_char n] else decimal (n div 10) @ [digit_char (n mod 10)])"

declare decimal.simps [simp del]

definition zero_pad :: "nat \<Rightarrow> string \<Rightarrow> string" where
  "zero_pad width s = replicate (width - length s) (CHR ''0'') @ s"

text \<open>\<open>strconv.Itoa\<close> and \<open>strconv.FormatInt(_, 10)\<close>.\<close>

definition Itoa :: "int \<Rightarrow> string" where
  "Itoa i = (if i < 0 then CHR ''-'' # decimal (nat (- i)) else decimal (nat i))"

text \<open>
  \<open>fmt.Sprintf("%0wd", i)\<close>: the sign counts in the width and the zeros follow it.
\<close>

definition Sprintf_0d :: "nat \<Rightarrow> int \<Rightarrow> string" where
  "Sprintf_0d width i =
     (if i < 0 then CHR ''-'' # zero_pad (width - 1) (decimal (nat (- i)))
      else zero_pad width (decimal (nat i)))"

text \<open>\<open>fmt.Sprintf("%v", weekday)\<close>, that is \<open>Weekday.String\<close>.\<close>

definition Weekday_String :: "nat \<Rightarrow> string" where
  "Weekday_String d =
     (if d = 0 then ''Sunday'' else if d = 1 then ''Monday'' else if d = 2 then ''Tuesday''
      else if d = 3 then ''Wednesday'' else if d = 4 then ''Thursday''
      else if d = 5 then ''Friday'' else if d = 6 then ''Saturday''
      else ''%!Weekday('' @ decimal d @ '')'')"

text \<open>
  \<open>timestamp.Format(time.RFC3339)\<close>, the layout \<open>2006-01-02T15:04:05Z07:00\<close>:
  the date, the letter T, the time, then \<open>Z\<close> for the offset zero and the signed
  offset in hours and minutes otherwise. The package pads the digits of a field, after
  the sign; the offset in minutes is the quotient truncated towards zero.
\<close>

definition appendInt :: "nat \<Rightarrow> int \<Rightarrow> string" where
  "appendInt width x =
     (if x < 0 then CHR ''-'' # zero_pad width (decimal (nat (- x)))
      else zero_pad width (decimal (nat x)))"

definition Format_zone :: "int \<Rightarrow> string" where
  "Format_zone offset =
     (if offset = 0 then ''Z''
      else (let zone = (if offset < 0 then - ((- offset) div 60) else offset div 60);
                az = (if zone < 0 then - zone else zone)
            in (if zone < 0 then ''-'' else ''+'')
               @ appendInt 2 (az div 60) @ '':'' @ appendInt 2 (az mod 60)))"

definition Format_RFC3339 :: "time \<Rightarrow> string" where
  "Format_RFC3339 t =
     appendInt 4 (Year t) @ ''-'' @ appendInt 2 (Month t) @ ''-'' @ appendInt 2 (Day t)
     @ ''T'' @ appendInt 2 (Hour t) @ '':'' @ appendInt 2 (Minute t) @ '':''
     @ appendInt 2 (Second t) @ Format_zone (ZoneOffset t)"

subsection \<open>Strings and paths\<close>

text \<open>\<open>strings.Split(s, sep)\<close> for a separator of one byte.\<close>

fun strings_Split :: "string \<Rightarrow> char \<Rightarrow> string list" where
  "strings_Split [] sep = [[]]"
| "strings_Split (c # cs) sep =
     (if c = sep then [] # strings_Split cs sep
      else (case strings_Split cs sep of
              [] \<Rightarrow> [[c]]
            | part # parts \<Rightarrow> (c # part) # parts))"

text \<open>
  \<open>strings.Replace(s, old, new, -1)\<close>: every occurrence of \<open>old\<close>, found from the
  left and not overlapping, becomes \<open>new\<close>. With an empty \<open>old\<close> the package
  inserts \<open>new\<close> in front of the string and after each of its characters; this
  program never passes an empty \<open>old\<close>.
\<close>

function strings_Replace :: "string \<Rightarrow> string \<Rightarrow> string \<Rightarrow> string" where
  "strings_Replace s old new =
     (if old = [] then new @ concat (map (\<lambda>c. c # new) s)
      else if s = [] then []
      else if take (length old) s = old then new @ strings_Replace (drop (length old) s) old new
      else hd s # strings_Replace (tl s) old new)"
  by pat_completeness auto
termination
  by (relation "measure (\<lambda>(s, old, new). length s)") auto

declare strings_Replace.simps [simp del]

text \<open>
  \<open>filepath.Ext\<close>: the suffix of the last element of the path that starts at its last
  dot, empty when that element has no dot (the separator is the slash).
\<close>

definition filepath_Ext :: "string \<Rightarrow> string" where
  "filepath_Ext path =
     (let element = takeWhile (\<lambda>c. c \<noteq> CHR ''/'') (rev path)
      in if CHR ''.'' \<in> set element
         then CHR ''.'' # rev (takeWhile (\<lambda>c. c \<noteq> CHR ''.'') element)
         else [])"

subsection \<open>Property formatters\<close>

definition TimestampProp :: "time \<Rightarrow> string list \<Rightarrow> string" where
  "TimestampProp timestamp properties =
     (case properties of
        [] \<Rightarrow> Format_RFC3339 timestamp
      | property # others \<Rightarrow>
          if property = ''Year'' then Itoa (Year timestamp)
          else if property = ''Month'' then Sprintf_0d 2 (Month timestamp)
          else if property = ''Day'' then Sprintf_0d 2 (Day timestamp)
          else if property = ''Hour'' then Sprintf_0d 2 (Hour timestamp)
          else if property = ''Minute'' then Sprintf_0d 2 (Minute timestamp)
          else if property = ''Second'' then Sprintf_0d 2 (Second timestamp)
          else if property = ''Nanosecond'' then Itoa (Nanosecond timestamp)
          else if property = ''Unix'' then Itoa (Unix timestamp)
          else if property = ''Weekday'' then Weekday_String (Weekday timestamp)
          else if property = ''Offset'' then Location timestamp
          else Format_RFC3339 timestamp)"

definition FileProp :: "FileInfo \<Rightarrow> string list \<Rightarrow> string" where
  "FileProp fileMeta properties =
     (case properties of
        [] \<Rightarrow> []
      | property # others \<Rightarrow>
          if property = ''Name'' then Name fileMeta
          else if property = ''ModTime''
          then TimestampProp (ModTime fileMeta)
                 [case others of [] \<Rightarrow> [] | subProperty # rest \<Rightarrow> subProperty]
          else if property = ''Size'' then Itoa (Size fileMeta)
          else [])"

subsection \<open>Runes\<close>

text \<open>
  A rune is its code point. \<open>DecodeRune\<close> is the decoding that a \<open>range\<close>
  clause over a string performs at the front of the remaining bytes (the same as
  \<open>utf8.DecodeRuneInString\<close>): the rune and its width in bytes. A first byte below
  0x80 is the rune itself; 0xC2 to 0xDF starts a sequence of two bytes, 0xE0 to 0xEF of
  three, 0xF0 to 0xF4 of four, where the second byte must lie in the range that excludes
  overlong forms, surrogates and code points above U+10FFFF, and the later bytes in 0x80 to
  0xBF. Everything else, a sequence cut short included, is the replacement rune U+FFFD of
  width one.
\<close>

type_synonym rune = nat

definition RuneError :: rune where
  "RuneError = 65533"

definition DecodeRune :: "string \<Rightarrow> rune \<times> nat" where
  "DecodeRune s =
     (case s of
        [] \<Rightarrow> (RuneError, 0)
      | c0 # cs \<Rightarrow>
          (let b0 = (of_char c0 :: nat)
           in if b0 < 128 then (b0, 1)
              else if b0 < 194 then (RuneError, 1)
              else if b0 < 224
              then (case cs of
                      c1 # cs1 \<Rightarrow>
                        (let b1 = (of_char c1 :: nat)
                         in if 128 \<le> b1 \<and> b1 \<le> 191
                            then ((b0 mod 32) * 64 + b1 mod 64, 2)
                            else (RuneError, 1))
                    | [] \<Rightarrow> (RuneError, 1))
              else if b0 < 240
              then (case cs of
                      c1 # c2 # cs2 \<Rightarrow>
                        (let b1 = (of_char c1 :: nat); b2 = (of_char c2 :: nat)
                         in if (if b0 = 224 then 160 else 128) \<le> b1
                               \<and> b1 \<le> (if b0 = 237 then 159 else 191)
                               \<and> 128 \<le> b2 \<and> b2 \<le> 191
                            then ((b0 mod 16) * 4096 + (b1 mod 64) * 64 + b2 mod 64, 3)
                            else (RuneError, 1))
                    | _ \<Rightarrow> (RuneError, 1))
              else if b0 < 245
              then (case cs of
                      c1 # c2 # c3 # cs3 \<Rightarrow>
                        (let b1 = (of_char c1 :: nat); b2 = (of_char c2 :: nat);
                             b3 = (of_char c3 :: nat)
                         in if (if b0 = 240 then 144 else 128) \<le> b1
                               \<and> b1 \<le> (if b0 = 244 then 143 else 191)
                               \<and> 128 \<le> b2 \<and> b2 \<le> 191 \<and> 128 \<le> b3 \<and> b3 \<le> 191
                            then ((b0 mod 8) * 262144 + (b1 mod 64) * 4096 + (b2 mod 64) * 64
                                    + b3 mod 64, 4)
                            else (RuneError, 1))
                    | _ \<Rightarrow> (RuneError, 1))
              else (RuneError, 1)))"

text \<open>
  The runes a \<open>range\<close> clause yields for a string, in order: a rune is decoded at the
  front, and the bytes of its width are passed over (\<open>k\<close> counts those still to pass).
\<close>

fun range_skip :: "nat \<Rightarrow> string \<Rightarrow> rune list" where
  "range_skip k [] = []"
| "range_skip (Suc k) (c # cs) = range_skip k cs"
| "range_skip 0 (c # cs) =
     fst (DecodeRune (c # cs)) # range_skip (snd (DecodeRune (c # cs)) - 1) cs"

definition range_runes :: "string \<Rightarrow> rune list" where
  "range_runes s = range_skip 0 s"

text \<open>
  The bytes that \<open>bytes.Buffer.WriteRune\<close> appends: the UTF-8 encoding of the rune,
  and that of U+FFFD for a surrogate or a value above U+10FFFF.
\<close>

definition WriteRune :: "rune \<Rightarrow> string" where
  "WriteRune r =
     (if r < 128 then [char_of r]
      else if r < 2048 then [char_of (192 + r div 64), char_of (128 + r mod 64)]
      else if 1114111 < r \<or> (55296 \<le> r \<and> r \<le> 57343)
      then [char_of (239 :: nat), char_of (191 :: nat), char_of (189 :: nat)]
      else if r < 65536
      then [char_of (224 + r div 4096), char_of (128 + (r div 64) mod 64),
            char_of (128 + r mod 64)]
      else [char_of (240 + r div 262144), char_of (128 + (r div 4096) mod 64),
            char_of (128 + (r div 64) mod 64), char_of (128 + r mod 64)])"


subsection \<open>The tag parser\<close>

text \<open>
  The scanner of \<open>ExtractFileOutputTags\<close>: the tags found so far, the state (0 outside
  a tag, 1 inside) and the buffer. The buffer is allocated when the opening brace is read,
  and state 1 is entered only there, so the nil buffer of the start is never used. The
  loop ranges over the runes of the pattern; the opening brace is the rune 123, the closing
  brace the rune 125.
\<close>

record scanner =
  sc_tags :: "string list"
  sc_state :: nat
  sc_tag :: string

definition scan_rune :: "scanner \<Rightarrow> rune \<Rightarrow> scanner" where
  "scan_rune sc r =
     (if sc_state sc = 0
      then (if r = 123 then sc\<lparr>sc_tag := [], sc_state := 1\<rparr> else sc)
      else if sc_state sc = 1
      then (let sc' = (if r = 125
                       then sc\<lparr>sc_tags := sc_tags sc @ [sc_tag sc], sc_state := 0\<rparr>
                       else sc)
            in sc'\<lparr>sc_tag := sc_tag sc' @ WriteRune r\<rparr>)
      else sc)"

definition scan_start :: scanner where
  "scan_start = \<lparr>sc_tags = [], sc_state = 0, sc_tag = []\<rparr>"

definition scan :: "scanner \<Rightarrow> rune list \<Rightarrow> scanner" where
  "scan sc runes = foldl scan_rune sc runes"

definition tags_of_runes :: "rune list \<Rightarrow> string list" where
  "tags_of_runes runes = sc_tags (scan scan_start runes)"

definition ExtractFileOutputTags :: "string \<Rightarrow> string list" where
  "ExtractFileOutputTags filePattern = tags_of_runes (range_runes filePattern)"

text \<open>No tag that the scanner has emitted, and no buffer of a scanner inside a tag,
  holds a closing brace.\<close>

definition no_closing_brace :: "scanner \<Rightarrow> bool" where
  "no_closing_brace sc =
     (list_all (\<lambda>t. CHR ''}'' \<notin> set t) (sc_tags sc)
      \<and> (if sc_state sc = 1 then CHR ''}'' \<notin> set (sc_tag sc) else True))"

definition ParseTagProperties :: "string \<Rightarrow> string \<times> string list" where
  "ParseTagProperties outputTag =
     (if CHR ''.'' \<in> set outputTag
      then (case strings_Split outputTag (CHR ''.'') of
              [] \<Rightarrow> (outputTag, [])
            | part # parts \<Rightarrow> (part, parts))
      else (outputTag, []))"

definition ReplaceTagInPattern :: "string \<Rightarrow> string \<Rightarrow> string \<Rightarrow> string" where
  "ReplaceTagInPattern inputPattern tag v =
     strings_Replace inputPattern (''{'' @ tag @ ''}'') v"

subsection \<open>The collaborators: file system, exif library, time parser, flags\<close>

text \<open>
  What the program asks of its environment is a parameter of the model. \<open>'fs\<close> is the
  state of the file system, which \<open>os.Rename\<close> changes; \<open>'x\<close> is a decoded
  \<open>exif.Exif\<close>, and a pointer to one is an \<open>'x option\<close> with \<open>None\<close> for nil.
  An \<open>error\<close> is its message. A \<open>tiff.Tag\<close> is represented by what its
  \<open>StringVal\<close> method returns. \<open>exif_Get\<close> is the library's \<open>Get\<close> on a
  decoded \<open>Exif\<close>. \<open>time_Parse\<close> is \<open>time.Parse\<close> with the layout
  \<open>timestampFormat\<close>; with every error it returns the zero time.
\<close>

type_synonym error = string

type_synonym tiff_Tag = "error + string"

record ('fs, 'x) world =
  ArgsDryRun :: bool
  os_Stat :: "'fs \<Rightarrow> string \<Rightarrow> error + FileInfo"
  os_Open :: "'fs \<Rightarrow> string \<Rightarrow> error option"
  exif_Decode :: "'fs \<Rightarrow> string \<Rightarrow> 'x option \<times> error option"
  exif_Get :: "'x \<Rightarrow> string \<Rightarrow> error + tiff_Tag"
  time_Parse :: "string \<Rightarrow> error + time"
  os_Rename :: "'fs \<Rightarrow> string \<Rightarrow> string \<Rightarrow> error + 'fs"

text \<open>
  A call either returns or ends the process with a run-time panic. The program has no
  \<open>recover\<close>, so a panic goes through every caller.
\<close>

datatype 'a outcome = Panics | Returns 'a

text \<open>
  \<open>exifData.Get(name)\<close> on a pointer: \<open>Get\<close> reads the fields of its receiver, so
  on the nil pointer it is a nil dereference, which panics.
\<close>

definition Exif_Get :: "('fs, 'x) world \<Rightarrow> 'x option \<Rightarrow> string \<Rightarrow> (error + tiff_Tag) outcome" where
  "Exif_Get w exifData name =
     (case exifData of
        None \<Rightarrow> Panics
      | Some x \<Rightarrow> Returns (exif_Get w x name))"

definition StringVal :: "tiff_Tag \<Rightarrow> error + string" where
  "StringVal exifTag = exifTag"

definition timestampFields :: "string list" where
  "timestampFields = [''DateTime'', ''DateTimeOriginal'', ''DateTimeDigitized'']"

text \<open>
  \<open>GetExifData\<close>: the file is opened, and decoded when it opens; when it does not, the
  result is the nil pointer and the error.
\<close>

definition GetExifData :: "('fs, 'x) world \<Rightarrow> 'fs \<Rightarrow> string \<Rightarrow> 'x option \<times> error option" where
  "GetExifData w fs filePath =
     (case os_Open w fs filePath of
        Some err \<Rightarrow> (None, Some err)
      | None \<Rightarrow> exif_Decode w fs filePath)"

subsection \<open>The tag resolver\<close>

text \<open>
  A Go function that returns a value and an error is a sum here when its callers drop the
  value that comes with an error (\<open>GetFileTagValue\<close>, \<open>GetExifTagValue\<close>), and a
  tuple when they do not (\<open>GetFileCaptureTime\<close>, \<open>IncrementCaptureIndex\<close>).
  \<open>GetFileTagValue\<close> does not touch the exif data and always returns.
\<close>

definition GetFileTagValue ::
  "('fs, 'x) world \<Rightarrow> 'fs \<Rightarrow> DateIndexCollector \<Rightarrow> time \<Rightarrow> string \<Rightarrow> string \<Rightarrow> string list
     \<Rightarrow> error + string" where
  "GetFileTagValue w fs collector fileCaptureTime filePath tag properties =
     (case os_Stat w fs filePath of
        Inl err \<Rightarrow> Inl err
      | Inr fileMeta \<Rightarrow>
          (case properties of
             [] \<Rightarrow> Inr []
           | property # others \<Rightarrow>
               if property = ''Index'' then Inr (Sprintf_0d 6 (Len collector))
               else if property = ''IndexByCaptureYear''
               then Inr (Sprintf_0d 6 (fst (GetIndexByYear collector fileCaptureTime)))
               else if property = ''IndexByCaptureMonth''
               then Inr (Sprintf_0d 6 (fst (GetIndexByMonth collector fileCaptureTime)))
               else if property = ''IndexByCaptureDate''
               then Inr (Sprintf_0d 6 (fst (GetIndexByDay collector fileCaptureTime)))
               else if property = ''Extension''
               then Inr (strings_Replace (filepath_Ext (Name fileMeta)) ''.'' [])
               else Inr (FileProp fileMeta properties)))"

definition GetExifTagValue ::
  "('fs, 'x) world \<Rightarrow> 'x option \<Rightarrow> string \<Rightarrow> string list \<Rightarrow> (error + string) outcome" where
  "GetExifTagValue w exifData tag properties =
     (case Exif_Get w exifData tag of
        Panics \<Rightarrow> Panics
      | Returns (Inl err) \<Rightarrow> Returns (Inl err)
      | Returns (Inr exifTag) \<Rightarrow>
          (case StringVal exifTag of
             Inl err \<Rightarrow> Returns (Inl err)
           | Inr stringTagValue \<Rightarrow>
               if tag \<in> set timestampFields
               then (case time_Parse w stringTagValue of
                       Inl err \<Rightarrow> Returns (Inl err)
                     | Inr timestamp \<Rightarrow>
                         (case properties of
                            [] \<Rightarrow> Returns (Inr [])
                          | property # others \<Rightarrow>
                              Returns (Inr (TimestampProp timestamp [property]))))
               else Returns (Inr stringTagValue)))"

text \<open>
  The loop of \<open>GetTagValue\<close> over the alternatives of a tag, with the value found so
  far: an alternative that fails is passed over (\<open>continue\<close>), one that succeeds
  assigns the value. When the loop ends the function returns the value and the nil error.
\<close>

fun GetTagValue_loop ::
  "('fs, 'x) world \<Rightarrow> 'fs \<Rightarrow> DateIndexCollector \<Rightarrow> time \<Rightarrow> 'x option \<Rightarrow> string
     \<Rightarrow> string list \<Rightarrow> string \<Rightarrow> string outcome" where
  "GetTagValue_loop w fs indexCollector fileCaptureTime exifData filePath [] tagValue =
     Returns tagValue"
| "GetTagValue_loop w fs indexCollector fileCaptureTime exifData filePath (outputTag # rest) tagValue =
     (case ParseTagProperties outputTag of
        (tag, properties) \<Rightarrow>
          if tag = ''File''
          then (case GetFileTagValue w fs indexCollector fileCaptureTime filePath tag properties of
                  Inl err \<Rightarrow>
                    GetTagValue_loop w fs indexCollector fileCaptureTime exifData filePath rest tagValue
                | Inr fileTagValue \<Rightarrow>
                    GetTagValue_loop w fs indexCollector fileCaptureTime exifData filePath rest
                      fileTagValue)
          else (case GetExifTagValue w exifData tag properties of
                  Panics \<Rightarrow> Panics
                | Returns (Inl err) \<Rightarrow>
                    GetTagValue_loop w fs indexCollector fileCaptureTime exifData filePath rest tagValue
                | Returns (Inr exifTagValue) \<Rightarrow>
                    GetTagValue_loop w fs indexCollector fileCaptureTime exifData filePath rest
                      exifTagValue))"

definition GetTagValue ::
  "('fs, 'x) world \<Rightarrow> 'fs \<Rightarrow> DateIndexCollector \<Rightarrow> time \<Rightarrow> 'x option \<Rightarrow> string \<Rightarrow> string
     \<Rightarrow> (string \<times> error option) outcome" where
  "GetTagValue w fs indexCollector fileCaptureTime exifData filePath fileTag =
     (case GetTagValue_loop w fs indexCollector fileCaptureTime exifData filePath
             (strings_Split fileTag (CHR ''|'')) [] of
        Panics \<Rightarrow> Panics
      | Returns tagValue \<Rightarrow> Returns (tagValue, None))"

text \<open>
  The words of the specification for a tag group: each alternative resolves to a value or
  fails, and the last one that resolves wins; the empty string when none does. An
  alternative is resolved against the file or against decoded exif data.
\<close>

definition resolve_alternative ::
  "('fs, 'x) world \<Rightarrow> 'fs \<Rightarrow> DateIndexCollector \<Rightarrow> time \<Rightarrow> 'x option \<Rightarrow> string \<Rightarrow> string
     \<Rightarrow> (error + string) outcome" where
  "resolve_alternative w fs indexCollector fileCaptureTime exifData filePath outputTag =
     (if fst (ParseTagProperties outputTag) = ''File''
      then Returns (GetFileTagValue w fs indexCollector fileCaptureTime filePath
             (fst (ParseTagProperties outputTag)) (snd (ParseTagProperties outputTag)))
      else GetExifTagValue w exifData
             (fst (ParseTagProperties outputTag)) (snd (ParseTagProperties outputTag)))"

fun returned :: "'a outcome list \<Rightarrow> 'a list" where
  "returned [] = []"
| "returned (Panics # rs) = returned rs"
| "returned (Returns r # rs) = r # returned rs"

fun successes :: "(error + string) list \<Rightarrow> string list" where
  "successes [] = []"
| "successes (Inl err # rs) = successes rs"
| "successes (Inr v # rs) = v # successes rs"

definition last_success :: "(error + string) list \<Rightarrow> string" where
  "last_success rs = (if successes rs = [] then [] else last (successes rs))"

subsection \<open>The pattern renderer\<close>

definition GetFileCaptureTime ::
  "('fs, 'x) world \<Rightarrow> 'fs \<Rightarrow> string \<Rightarrow> (time \<times> 'x option \<times> error option) outcome" where
  "GetFileCaptureTime w fs filePath =
     (case GetExifData w fs filePath of
        (exifData, Some err) \<Rightarrow> Returns (zero_Time, exifData, Some err)
      | (exifData, None) \<Rightarrow>
          (case (case Exif_Get w exifData ''DateTime'' of
                   Panics \<Rightarrow> Panics
                 | Returns (Inr exifTag) \<Rightarrow> Returns (Inr exifTag)
                 | Returns (Inl err) \<Rightarrow>
                     (case Exif_Get w exifData ''DateTimeDigitized'' of
                        Panics \<Rightarrow> Panics
                      | Returns (Inr exifTag) \<Rightarrow> Returns (Inr exifTag)
                      | Returns (Inl err) \<Rightarrow> Exif_Get w exifData ''DateTimeOriginal'')) of
             Panics \<Rightarrow> Panics
           | Returns (Inl err) \<Rightarrow> Returns (zero_Time, exifData, Some err)
           | Returns (Inr exifTag) \<Rightarrow>
               (case StringVal exifTag of
                  Inl err \<Rightarrow> Returns (zero_Time, exifData, Some err)
                | Inr stringTagValue \<Rightarrow>
                    (case time_Parse w stringTagValue of
                       Inl err \<Rightarrow> Returns (zero_Time, exifData, Some err)
                     | Inr timestamp \<Rightarrow> Returns (timestamp, exifData, None)))))"

text \<open>
  \<open>IncrementCaptureIndex\<close> returns what \<open>GetFileCaptureTime\<close> returned, and the
  collector: with the timestamp added when there was no error, as it was otherwise.
\<close>

definition IncrementCaptureIndex ::
  "('fs, 'x) world \<Rightarrow> 'fs \<Rightarrow> string \<Rightarrow> DateIndexCollector
     \<Rightarrow> ((time \<times> 'x option \<times> error option) \<times> DateIndexCollector) outcome" where
  "IncrementCaptureIndex w fs filePath collector =
     (case GetFileCaptureTime w fs filePath of
        Panics \<Rightarrow> Panics
      | Returns (timestamp, exifData, Some err) \<Rightarrow>
          Returns ((timestamp, exifData, Some err), collector)
      | Returns (timestamp, exifData, None) \<Rightarrow>
          Returns ((timestamp, exifData, None), Add collector timestamp))"

text \<open>
  The inner loop of \<open>ApplyPattern\<close>: every tag is resolved and replaced in the output
  name; an error of \<open>GetTagValue\<close> would be returned.
\<close>

fun ApplyPattern_tags ::
  "('fs, 'x) world \<Rightarrow> 'fs \<Rightarrow> DateIndexCollector \<Rightarrow> time \<Rightarrow> 'x option \<Rightarrow> string
     \<Rightarrow> string list \<Rightarrow> string \<Rightarrow> (error + string) outcome" where
  "ApplyPattern_tags w fs collector fileCaptureTime exifData file [] outputFilename =
     Returns (Inr outputFilename)"
| "ApplyPattern_tags w fs collector fileCaptureTime exifData file (tag # rest) outputFilename =
     (case GetTagValue w fs collector fileCaptureTime exifData file tag of
        Panics \<Rightarrow> Panics
      | Returns (v, Some err) \<Rightarrow> Returns (Inl err)
      | Returns (v, None) \<Rightarrow>
          ApplyPattern_tags w fs collector fileCaptureTime exifData file rest
            (ReplaceTagInPattern outputFilename tag v))"

text \<open>
  What a run does that can be seen: a line printed in a dry run, a file renamed otherwise,
  and how the run ends, by returning an error or nil, or in a panic. The outer loop of
  \<open>ApplyPattern\<close> carries the collector, the file system and the events so far; the
  error that \<open>IncrementCaptureIndex\<close> returns is assigned and not read, and the exif
  pointer that comes with it is passed on as it is. The loop returns on the first error of
  the inner loop or of \<open>os.Rename\<close>.
\<close>

datatype event = Printed string string | Renamed string string

datatype ending = Returned "error option" | Panicked

record 'fs run =
  collector_of :: DateIndexCollector
  filesystem_of :: 'fs
  events_of :: "event list"
  ending_of :: ending

fun ApplyPattern_files ::
  "('fs, 'x) world \<Rightarrow> string list \<Rightarrow> string list \<Rightarrow> string
     \<Rightarrow> DateIndexCollector \<Rightarrow> 'fs \<Rightarrow> event list \<Rightarrow> 'fs run" where
  "ApplyPattern_files w [] fileTags outputFilePattern collector fs events =
     \<lparr>collector_of = collector, filesystem_of = fs, events_of = events,
      ending_of = Returned None\<rparr>"
| "ApplyPattern_files w (file # files) fileTags outputFilePattern collector fs events =
     (case IncrementCaptureIndex w fs file collector of
        Panics \<Rightarrow>
          \<lparr>collector_of = collector, filesystem_of = fs, events_of = events,
            ending_of = Panicked\<rparr>
      | Returns ((fileCaptureTime, exifData, err), collector') \<Rightarrow>
          (case ApplyPattern_tags w fs collector' fileCaptureTime exifData file fileTags
                  outputFilePattern of
             Panics \<Rightarrow>
               \<lparr>collector_of = collector', filesystem_of = fs, events_of = events,
                 ending_of = Panicked\<rparr>
           | Returns (Inl err) \<Rightarrow>
               \<lparr>collector_of = collector', filesystem_of = fs, events_of = events,
                 ending_of = Returned (Some err)\<rparr>
           | Returns (Inr outputFilename) \<Rightarrow>
               if ArgsDryRun w
               then ApplyPattern_files w files fileTags outputFilePattern collector' fs
                      (events @ [Printed file outputFilename])
               else (case os_Rename w fs file outputFilename of
                       Inl err \<Rightarrow>
                         \<lparr>collector_of = collector', filesystem_of = fs, events_of = events,
                           ending_of = Returned (Some err)\<rparr>
                     | Inr fs' \<Rightarrow>
                         ApplyPattern_files w files fileTags outputFilePattern collector' fs'
                           (events @ [Renamed file outputFilename]))))"

definition ApplyPattern ::
  "('fs, 'x) world \<Rightarrow> 'fs \<Rightarrow> string list \<Rightarrow> string list \<Rightarrow> string \<Rightarrow> 'fs run" where
  "ApplyPattern w fs files fileTags outputFilePattern =
     ApplyPattern_files w files fileTags outputFilePattern NewDateIndexCollector fs []"

text \<open>
  The value of a tag group against decoded exif data, in the words of the specification,
  and the name a file is given with it: the pattern with every tag, in the order of
  \<open>fileTags\<close>, replaced by its value. And the file an event is about.
\<close>

definition tag_value ::
  "('fs, 'x) world \<Rightarrow> 'fs \<Rightarrow> DateIndexCollector \<Rightarrow> time \<Rightarrow> 'x \<Rightarrow> string \<Rightarrow> string \<Rightarrow> string" where
  "tag_value w fs collector fileCaptureTime x file fileTag =
     last_success (returned (map (resolve_alternative w fs collector fileCaptureTime (Some x) file)
        (strings_Split fileTag (CHR ''|''))))"

definition rendered_name ::
  "('fs, 'x) world \<Rightarrow> 'fs \<Rightarrow> DateIndexCollector \<Rightarrow> time \<Rightarrow> 'x \<Rightarrow> string
     \<Rightarrow> string list \<Rightarrow> string \<Rightarrow> string" where
  "rendered_name w fs collector fileCaptureTime x file fileTags outputFilePattern =
     foldl (\<lambda>outputFilename tag.
              ReplaceTagInPattern outputFilename tag
                (tag_value w fs collector fileCaptureTime x file tag))
       outputFilePattern fileTags"

fun event_file :: "event \<Rightarrow> string" where
  "event_file (Printed file outputFilename) = file"
| "event_file (Renamed file outputFilename) = file"

subsection \<open>Example data\<close>

text \<open>
  \<open>time.Date(y, m, d, hh, mm, ss, 0, time.UTC)\<close> for a date and a time of day that
  are in range: the days since 1970-01-01 come from the civil calendar, the weekday from
  the days (1970-01-01 was a Thursday).
\<close>

definition days_from_civil :: "int \<Rightarrow> int \<Rightarrow> int \<Rightarrow> int" where
  "days_from_civil y m d =
     (let y' = (if m \<le> 2 then y - 1 else y);
          era = y' div 400;
          yoe = y' - era * 400;
          doy = (153 * (if m > 2 then m - 3 else m + 9) + 2) div 5 + d - 1;
          doe = yoe * 365 + yoe div 4 - yoe div 100 + doy
      in era * 146097 + doe - 719468)"

definition Date_UTC :: "int \<Rightarrow> int \<Rightarrow> int \<Rightarrow> int \<Rightarrow> int \<Rightarrow> int \<Rightarrow> time" where
  "Date_UTC y m d hh mm ss =
     \<lparr>Year = y, Month = m, Day = d, Hour = hh, Minute = mm, Second = ss, Nanosecond = 0,
      Unix = days_from_civil y m d * 86400 + hh * 3600 + mm * 60 + ss,
      Weekday = nat ((days_from_civil y m d + 4) mod 7),
      Location = ''UTC'', ZoneOffset = 0\<rparr>"

text \<open>The eight timestamps of the collector's test in the repository.\<close>

definition test_timestamps :: "time list" where
  "test_timestamps =
     [Date_UTC 2015 1 1 0 0 0, Date_UTC 2016 1 1 0 0 0, Date_UTC 2016 1 2 0 0 0,
      Date_UTC 2016 1 2 0 0 0, Date_UTC 2016 1 3 0 0 0, Date_UTC 2016 1 3 0 0 0,
      Date_UTC 2016 1 3 0 0 0, Date_UTC 2016 2 1 0 0 0]"

text \<open>
  A small world for the examples. Every path but \<open>missing.jpg\<close> can be opened and
  has attributes, and its file name is the path. \<open>plain.jpg\<close> opens but holds no
  exif data: decoding it gives nil and an error. Every other file decodes: \<open>a.jpg\<close>
  and \<open>b.jpg\<close> carry the \<open>DateTime\<close> 2016:03:04 10:00:00 and the \<open>Make\<close>
  Canon; \<open>old.jpg\<close> carries the \<open>DateTime\<close> 0001:01:01 00:00:00; the rest decode
  to exif data with no field at all. The parser knows these two timestamps. Every rename
  succeeds but that of \<open>locked.jpg\<close>, and the examples do not look at the file system
  afterwards, so its state is the unit.
\<close>

definition example_Get :: "string \<Rightarrow> string \<Rightarrow> error + tiff_Tag" where
  "example_Get path name =
     (if (path = ''a.jpg'' \<or> path = ''b.jpg'') \<and> name = ''DateTime''
      then Inr (Inr ''2016:03:04 10:00:00'')
      else if (path = ''a.jpg'' \<or> path = ''b.jpg'') \<and> name = ''Make''
      then Inr (Inr ''Canon'')
      else if path = ''old.jpg'' \<and> name = ''DateTime''
      then Inr (Inr ''0001:01:01 00:00:00'')
      else Inl ''exif: tag is not present'')"

definition example_Parse :: "string \<Rightarrow> error + time" where
  "example_Parse s =
     (if s = ''2016:03:04 10:00:00'' then Inr (Date_UTC 2016 3 4 10 0 0)
      else if s = ''0001:01:01 00:00:00'' then Inr (Date_UTC 1 1 1 0 0 0)
      else Inl ''parsing time: cannot parse'')"

definition example_world :: "bool \<Rightarrow> (unit, string) world" where
  "example_world dryrun =
     \<lparr>ArgsDryRun = dryrun,
      os_Stat = (\<lambda>fs path.
         if path = ''missing.jpg'' then Inl ''stat missing.jpg: no such file or directory''
         else Inr \<lparr>Name = path, Size = 1024, ModTime = Date_UTC 2016 3 5 12 30 0\<rparr>),
      os_Open = (\<lambda>fs path.
         if path = ''missing.jpg'' then Some ''open missing.jpg: no such file or directory''
         else None),
      exif_Decode = (\<lambda>fs path.
         if path = ''plain.jpg'' then (None, Some ''exif: failed to find exif intro marker'')
         else (Some path, None)),
      exif_Get = example_Get,
      time_Parse = example_Parse,
      os_Rename = (\<lambda>fs oldpath newpath.
         if oldpath = ''locked.jpg'' then Inl ''rename locked.jpg: permission denied''
         else Inr fs)\<rparr>"

section \<open>Properties\<close>

subsection \<open>The collector's counters\<close>

lemma index_map_upd: "index_map (m(k \<mapsto> v)) k' = (if k' = k then v else index_map m k')"
  by (simp add: index_map_def)

lemma index_int_upd: "index_int (m(k \<mapsto> v)) k' = (if k' = k then v else index_int m k')"
  by (simp add: index_int_def)

lemma index_map_None: "m k = None \<Longrightarrow> index_map m k = Map.empty"
  by (simp add: index_map_def)

lemma index_map_Some: "m k = Some v \<Longrightarrow> index_map m k = v"
  by (simp add: index_map_def)

lemma index_int_empty: "index_int Map.empty k = 0"
  by (simp add: index_int_def)

lemma Add_year_fields:
  "Count (Add_year c y) = Count c"
  "ByMonth (Add_year c y) = ByMonth c"
  "ByDay (Add_year c y) = ByDay c"
  "index_int (ByYear (Add_year c y)) y' = index_int (ByYear c) y' + (if y' = y then 1 else 0)"
  by (simp_all add: Add_year_def index_int_upd)

lemma Add_month_fields:
  "Count (Add_month c y m) = Count c"
  "ByYear (Add_month c y m) = ByYear c"
  "ByDay (Add_month c y m) = ByDay c"
  by (simp_all add: Add_month_def Let_def)

lemma Add_month_val:
  "index_int (index_map (ByMonth (Add_month c y m)) y') m' =
     index_int (index_map (ByMonth c) y') m' + (if y' = y \<and> m' = m then 1 else 0)"
proof (cases "ByMonth c y")
  case None
  then show ?thesis
    by (simp add: Add_month_def Let_def index_map_upd index_int_upd index_map_None index_int_empty)
next
  case (Some months)
  then show ?thesis
    by (simp add: Add_month_def Let_def index_map_upd index_int_upd index_map_Some)
qed

lemma Add_day_fields:
  "Count (Add_day c y m d) = Count c"
  "ByYear (Add_day c y m d) = ByYear c"
  "ByMonth (Add_day c y m d) = ByMonth c"
  by (simp_all add: Add_day_def Let_def)

lemma Add_day_val:
  "index_int (index_map (index_map (ByDay (Add_day c y m d)) y') m') d' =
     index_int (index_map (index_map (ByDay c) y') m') d'
       + (if y' = y \<and> m' = m \<and> d' = d then 1 else 0)"
proof (cases "ByDay c y")
  case None
  then show ?thesis
    by (simp add: Add_day_def Let_def index_map_upd index_int_upd index_map_None index_int_empty)
next
  case outer: (Some months)
  show ?thesis
  proof (cases "months m")
    case None
    with outer show ?thesis
      by (simp add: Add_day_def Let_def index_map_upd index_int_upd index_map_None
          index_map_Some index_int_empty)
  next
    case (Some days)
    with outer show ?thesis
      by (simp add: Add_day_def Let_def index_map_upd index_int_upd index_map_Some)
  qed
qed

text \<open>One \<open>Add\<close>: the total and the three counters of the timestamp's own buckets grow by
  one, every other counter stays.\<close>

lemma Len_Add: "Len (Add c u) = Len c + 1"
  by (simp add: Add_def Len_def Add_day_fields Add_month_fields Add_year_fields)

lemma year_Add:
  "index_int (ByYear (Add c u)) y = index_int (ByYear c) y + (if Year u = y then 1 else 0)"
  by (auto simp add: Add_def Add_day_fields Add_month_fields Add_year_fields)

lemma month_Add:
  "index_int (index_map (ByMonth (Add c u)) y) m =
     index_int (index_map (ByMonth c) y) m + (if Year u = y \<and> Month u = m then 1 else 0)"
  by (auto simp add: Add_def Add_day_fields Add_month_val Add_year_fields)

lemma day_Add:
  "index_int (index_map (index_map (ByDay (Add c u)) y) m) d =
     index_int (index_map (index_map (ByDay c) y) m) d
       + (if Year u = y \<and> Month u = m \<and> Day u = d then 1 else 0)"
  by (auto simp add: Add_def Add_day_val Add_month_fields Add_year_fields)

lemma AddAll_snoc: "AddAll c (timestamps @ [u]) = Add (AddAll c timestamps) u"
  by (simp add: AddAll_def)

lemma AddAll_Nil: "AddAll c [] = c"
  by (simp add: AddAll_def)

lemma Len_AddAll: "Len (AddAll c timestamps) = Len c + int (length timestamps)"
  by (induction timestamps rule: rev_induct) (simp_all add: AddAll_Nil AddAll_snoc Len_Add)

lemma year_AddAll:
  "index_int (ByYear (AddAll c timestamps)) y = index_int (ByYear c) y + adds_in_year timestamps y"
  by (induction timestamps rule: rev_induct)
    (simp_all add: AddAll_Nil AddAll_snoc year_Add adds_in_year_def)

lemma month_AddAll:
  "index_int (index_map (ByMonth (AddAll c timestamps)) y) m =
     index_int (index_map (ByMonth c) y) m + adds_in_month timestamps y m"
  by (induction timestamps rule: rev_induct)
    (simp_all add: AddAll_Nil AddAll_snoc month_Add adds_in_month_def)

lemma day_AddAll:
  "index_int (index_map (index_map (ByDay (AddAll c timestamps)) y) m) d =
     index_int (index_map (index_map (ByDay c) y) m) d + adds_in_day timestamps y m d"
  by (induction timestamps rule: rev_induct)
    (simp_all add: AddAll_Nil AddAll_snoc day_Add adds_in_day_def)

lemma New_fields:
  "Len NewDateIndexCollector = 0"
  "index_int (ByYear NewDateIndexCollector) y = 0"
  "index_int (index_map (ByMonth NewDateIndexCollector) y) m = 0"
  "index_int (index_map (index_map (ByDay NewDateIndexCollector) y) m) d = 0"
  by (simp_all add: NewDateIndexCollector_def Len_def index_int_def index_map_def)

lemma adds_month_le_year: "adds_in_month timestamps y m \<le> adds_in_year timestamps y"
proof -
  have "length (filter (\<lambda>u. Year u = y \<and> Month u = m) timestamps)
      = length (filter (\<lambda>u. Month u = m) (filter (\<lambda>u. Year u = y) timestamps))"
    by (simp add: conj_commute)
  also have "\<dots> \<le> length (filter (\<lambda>u. Year u = y) timestamps)"
    by (rule length_filter_le)
  finally show ?thesis
    by (simp add: adds_in_month_def adds_in_year_def)
qed

lemma adds_day_le_month: "adds_in_day timestamps y m d \<le> adds_in_month timestamps y m"
proof -
  have "length (filter (\<lambda>u. Year u = y \<and> Month u = m \<and> Day u = d) timestamps)
      = length (filter (\<lambda>u. Day u = d) (filter (\<lambda>u. Year u = y \<and> Month u = m) timestamps))"
    by (simp add: conj_commute conj_left_commute)
  also have "\<dots> \<le> length (filter (\<lambda>u. Year u = y \<and> Month u = m) timestamps)"
    by (rule length_filter_le)
  finally show ?thesis
    by (simp add: adds_in_day_def adds_in_month_def)
qed

lemma lookup_year: "GetIndexByYear c t = (index_int (ByYear c) (Year t), c)"
  by (simp add: GetIndexByYear_def)

lemma lookup_month:
  "GetIndexByMonth c t = (index_int (index_map (ByMonth c) (Year t)) (Month t), c)"
  by (simp add: GetIndexByMonth_def index_int_def index_map_def split: option.splits)

lemma lookup_day:
  "GetIndexByDay c t =
     (index_int (index_map (index_map (ByDay c) (Year t)) (Month t)) (Day t), c)"
  by (simp add: GetIndexByDay_def index_int_def index_map_def split: option.splits)

text \<open>
  Claim C4. After the timestamps of any sequence have been added to a fresh collector,
  \<open>Len\<close> is the length of the sequence; the counter of every year, month and day is
  the number of added timestamps that fall in it, so a month's counter is at most its
  year's and a day's at most its month's, whatever the sequence (every state the collector
  goes through is the state after a sequence). One more \<open>Add\<close> increments the year
  counter of its own year by exactly one and leaves the other years' counters alone, so no
  counter ever decreases.
\<close>

theorem collector_counts:
  "Len (AddAll NewDateIndexCollector timestamps) = int (length timestamps)
   \<and> index_int (ByYear (AddAll NewDateIndexCollector timestamps)) y
       = adds_in_year timestamps y
   \<and> index_int (index_map (ByMonth (AddAll NewDateIndexCollector timestamps)) y) m
       = adds_in_month timestamps y m
   \<and> index_int (index_map (index_map (ByDay (AddAll NewDateIndexCollector timestamps)) y) m) d
       = adds_in_day timestamps y m d
   \<and> index_int (index_map (ByMonth (AddAll NewDateIndexCollector timestamps)) y) m
       \<le> index_int (ByYear (AddAll NewDateIndexCollector timestamps)) y
   \<and> index_int (index_map (index_map (ByDay (AddAll NewDateIndexCollector timestamps)) y) m) d
       \<le> index_int (index_map (ByMonth (AddAll NewDateIndexCollector timestamps)) y) m
   \<and> index_int (ByYear (Add c u)) y = index_int (ByYear c) y + (if Year u = y then 1 else 0)
   \<and> index_int (ByYear c) y \<le> index_int (ByYear (Add c u)) y"
  by (simp add: Len_AddAll year_AddAll month_AddAll day_AddAll New_fields year_Add
      adds_month_le_year adds_day_le_month)

text \<open>The repository's test of the collector, as an instance of the theorem.\<close>

lemma test_counts:
  "adds_in_year test_timestamps 2016 = 7"
  "adds_in_month test_timestamps 2016 1 = 6"
  "adds_in_day test_timestamps 2016 1 1 = 1"
  "adds_in_day test_timestamps 2016 1 2 = 2"
  "adds_in_day test_timestamps 2016 1 3 = 3"
  by (simp_all add: adds_in_year_def adds_in_month_def adds_in_day_def test_timestamps_def
      Date_UTC_def)

theorem collector_counts_witness:
  "Len (AddAll NewDateIndexCollector test_timestamps) = 8
   \<and> index_int (ByYear (AddAll NewDateIndexCollector test_timestamps)) 2016 = 7
   \<and> index_int (index_map (ByMonth (AddAll NewDateIndexCollector test_timestamps)) 2016) 1 = 6
   \<and> index_int (index_map (index_map (ByDay (AddAll NewDateIndexCollector test_timestamps))
        2016) 1) 3 = 3"
  using collector_counts [of test_timestamps 2016 1 3]
  by (simp add: test_counts) (simp add: test_timestamps_def)

text \<open>
  Claim C6. On every collector and every timestamp, each lookup returns the counter of
  the timestamp's bucket, read as Go reads a map (zero for a key that is absent), and
  leaves the collector as it was: the same \<open>Count\<close>, \<open>ByYear\<close>, \<open>ByMonth\<close> and
  \<open>ByDay\<close>. On a collector filled from a fresh one, a lookup for a year, a month or a
  day in which no added timestamp falls returns 0.
\<close>

theorem lookups_read_only:
  "GetIndexByYear c t = (index_int (ByYear c) (Year t), c)
   \<and> GetIndexByMonth c t = (index_int (index_map (ByMonth c) (Year t)) (Month t), c)
   \<and> GetIndexByDay c t
       = (index_int (index_map (index_map (ByDay c) (Year t)) (Month t)) (Day t), c)
   \<and> Count (snd (GetIndexByYear c t)) = Count c \<and> ByYear (snd (GetIndexByYear c t)) = ByYear c
   \<and> ByMonth (snd (GetIndexByYear c t)) = ByMonth c \<and> ByDay (snd (GetIndexByYear c t)) = ByDay c
   \<and> Count (snd (GetIndexByMonth c t)) = Count c \<and> ByYear (snd (GetIndexByMonth c t)) = ByYear c
   \<and> ByMonth (snd (GetIndexByMonth c t)) = ByMonth c \<and> ByDay (snd (GetIndexByMonth c t)) = ByDay c
   \<and> Count (snd (GetIndexByDay c t)) = Count c \<and> ByYear (snd (GetIndexByDay c t)) = ByYear c
   \<and> ByMonth (snd (GetIndexByDay c t)) = ByMonth c \<and> ByDay (snd (GetIndexByDay c t)) = ByDay c
   \<and> (adds_in_year timestamps (Year t) = 0 \<longrightarrow>
        fst (GetIndexByYear (AddAll NewDateIndexCollector timestamps) t) = 0)
   \<and> (adds_in_month timestamps (Year t) (Month t) = 0 \<longrightarrow>
        fst (GetIndexByMonth (AddAll NewDateIndexCollector timestamps) t) = 0)
   \<and> (adds_in_day timestamps (Year t) (Month t) (Day t) = 0 \<longrightarrow>
        fst (GetIndexByDay (AddAll NewDateIndexCollector timestamps) t) = 0)"
  by (simp add: lookup_year lookup_month lookup_day year_AddAll month_AddAll day_AddAll
      New_fields)

theorem lookups_read_only_witness:
  "adds_in_year test_timestamps (Year (Date_UTC 2017 5 6 0 0 0)) = 0
   \<and> adds_in_month test_timestamps (Year (Date_UTC 2016 3 1 0 0 0))
        (Month (Date_UTC 2016 3 1 0 0 0)) = 0
   \<and> adds_in_day test_timestamps 2016 1 4 = 0
   \<and> GetIndexByYear (AddAll NewDateIndexCollector test_timestamps) (Date_UTC 2017 5 6 0 0 0)
       = (0, AddAll NewDateIndexCollector test_timestamps)
   \<and> GetIndexByMonth (AddAll NewDateIndexCollector test_timestamps) (Date_UTC 2016 3 1 0 0 0)
       = (0, AddAll NewDateIndexCollector test_timestamps)
   \<and> GetIndexByDay (AddAll NewDateIndexCollector test_timestamps) (Date_UTC 2016 1 4 0 0 0)
       = (0, AddAll NewDateIndexCollector test_timestamps)
   \<and> GetIndexByYear (AddAll NewDateIndexCollector test_timestamps) (Date_UTC 2016 1 1 0 0 0)
       = (7, AddAll NewDateIndexCollector test_timestamps)"
proof -
  have zeros:
    "adds_in_year test_timestamps 2017 = 0"
    "adds_in_month test_timestamps 2016 3 = 0"
    "adds_in_day test_timestamps 2016 1 4 = 0"
    by (simp_all add: adds_in_year_def adds_in_month_def adds_in_day_def test_timestamps_def
        Date_UTC_def)
  have fields:
    "Year (Date_UTC y m d 0 0 0) = y" "Month (Date_UTC y m d 0 0 0) = m"
    "Day (Date_UTC y m d 0 0 0) = d" for y m d
    by (simp_all add: Date_UTC_def)
  show ?thesis
    using lookups_read_only [of "AddAll NewDateIndexCollector test_timestamps"
        "Date_UTC 2017 5 6 0 0 0" test_timestamps]
      lookups_read_only [of "AddAll NewDateIndexCollector test_timestamps"
        "Date_UTC 2016 3 1 0 0 0" test_timestamps]
      lookups_read_only [of "AddAll NewDateIndexCollector test_timestamps"
        "Date_UTC 2016 1 4 0 0 0" test_timestamps]
      lookups_read_only [of "AddAll NewDateIndexCollector test_timestamps"
        "Date_UTC 2016 1 1 0 0 0" test_timestamps]
    by (simp add: zeros fields prod_eq_iff year_AddAll New_fields test_counts)
qed

subsection \<open>Runes\<close>

lemma DecodeRune_ASCII: "(of_char c :: nat) < 128 \<Longrightarrow> DecodeRune (c # cs) = (of_char c, 1)"
  by (simp add: DecodeRune_def)









lemma high_byte_no_brace:
  assumes "128 \<le> n" and "n < 256"
  shows "char_of (n :: nat) \<noteq> CHR ''}''"
proof
  assume eq: "char_of n = CHR ''}''"
  have "(of_char (char_of n) :: nat) = n mod 256"
    by (rule of_char_of)
  moreover have "(of_char (char_of n) :: nat) = 125"
    by (simp only: eq) simp
  ultimately have "n mod 256 = 125"
    by simp
  then show False
    using assms by simp
qed

lemma low_byte_brace:
  assumes "r < 128" and "char_of (r :: nat) = CHR ''}''"
  shows "r = 125"
proof -
  have "(of_char (char_of r) :: nat) = r mod 256"
    by (rule of_char_of)
  moreover have "(of_char (char_of r) :: nat) = 125"
    by (simp only: assms(2)) simp
  ultimately show ?thesis
    using assms(1) by simp
qed

lemma WriteRune_no_brace:
  assumes "r \<noteq> 125"
  shows "CHR ''}'' \<notin> set (WriteRune r)"
proof (cases "r < 128")
  case True
  then show ?thesis
    using assms low_byte_brace [of r] by (auto simp add: WriteRune_def)
next
  case False
  have fixed: "char_of (239 :: nat) \<noteq> CHR ''}''" "char_of (191 :: nat) \<noteq> CHR ''}''"
    "char_of (189 :: nat) \<noteq> CHR ''}''"
    by (simp_all add: high_byte_no_brace)
  have cont: "char_of (128 + k mod 64) \<noteq> CHR ''}''" for k :: nat
    by (rule high_byte_no_brace) simp_all
  show ?thesis
  proof (cases "r < 2048")
    case True
    have "char_of (192 + r div 64) \<noteq> CHR ''}''"
      using True by (intro high_byte_no_brace) simp_all
    then show ?thesis
      using \<open>\<not> r < 128\<close> True cont [of r] by (simp add: WriteRune_def)
  next
    case big: False
    show ?thesis
    proof (cases "1114111 < r \<or> (55296 \<le> r \<and> r \<le> 57343)")
      case True
      then show ?thesis
        using \<open>\<not> r < 128\<close> big fixed by (auto simp add: WriteRune_def)
    next
      case valid: False
      show ?thesis
      proof (cases "r < 65536")
        case True
        have "char_of (224 + r div 4096) \<noteq> CHR ''}''"
          using True by (intro high_byte_no_brace) simp_all
        then show ?thesis
          using \<open>\<not> r < 128\<close> big valid True cont [of r] cont [of "r div 64"]
          by (auto simp add: WriteRune_def)
      next
        case False
        have "r \<le> 1114111"
          using valid by simp
        then have "r div 262144 \<le> 1114111 div 262144"
          by (rule div_le_mono)
        then have "r div 262144 \<le> 4"
          by simp
        then have "char_of (240 + r div 262144) \<noteq> CHR ''}''"
          by (intro high_byte_no_brace) simp_all
        then show ?thesis
          using \<open>\<not> r < 128\<close> big valid False cont [of r] cont [of "r div 64"]
            cont [of "r div 4096"]
          by (auto simp add: WriteRune_def)
      qed
    qed
  qed
qed

lemma WriteRune_brace: "WriteRune 125 = ''}''" "WriteRune 123 = ''{''"
  by code_simp+

subsection \<open>The tag parser\<close>

lemma scan_Nil: "scan sc [] = sc"
  by (simp add: scan_def)

lemma scan_Cons: "scan sc (r # rs) = scan (scan_rune sc r) rs"
  by (simp add: scan_def)


















lemma no_closing_brace_rune: "no_closing_brace sc \<Longrightarrow> no_closing_brace (scan_rune sc r)"
  using WriteRune_no_brace [of r]
  by (auto simp add: no_closing_brace_def scan_rune_def Let_def split: if_splits)

lemma no_closing_brace_scan: "no_closing_brace sc \<Longrightarrow> no_closing_brace (scan sc xs)"
  by (induction xs arbitrary: sc) (simp_all add: scan_Nil scan_Cons no_closing_brace_rune)

lemma extract_no_closing_brace:
  "list_all (\<lambda>t. CHR ''}'' \<notin> set t) (ExtractFileOutputTags filePattern)"
proof -
  have "no_closing_brace scan_start"
    by (simp add: no_closing_brace_def scan_start_def)
  then have "no_closing_brace (scan scan_start (range_runes filePattern))"
    by (rule no_closing_brace_scan)
  then show ?thesis
    by (simp add: no_closing_brace_def ExtractFileOutputTags_def tags_of_runes_def)
qed

lemma brace_pattern_scanned:
  "scan scan_start (range_runes ''{a}'') = \<lparr>sc_tags = [''a''], sc_state = 0, sc_tag = ''a}''\<rparr>"
  by code_simp

text \<open>
  Claim C8, as stated, has the closing brace in the captured tag string. It is not: the
  template \<open>{a}\<close> gives the tag \<open>a\<close>, while the buffer ends as \<open>a}\<close>.
\<close>

theorem closing_brace_not_captured:
  "ExtractFileOutputTags ''{a}'' = [''a'']
   \<and> ExtractFileOutputTags ''{a}'' \<noteq> [''a}'']
   \<and> sc_tag (scan scan_start (range_runes ''{a}'')) = ''a}''"
  by (simp add: ExtractFileOutputTags_def tags_of_runes_def brace_pattern_scanned)

text \<open>
  Claim C8, amended. Inside a tag the scanner writes every rune of the template to its
  buffer as \<open>WriteRune\<close> encodes it (a byte of the template that is not valid UTF-8 is
  read as the rune U+FFFD and written as its three bytes), the closing brace too, and the
  closing brace takes it back outside; but the tag is captured from the buffer before the
  closing brace is written, so the captured tag is what was written for the runes between
  the braces and no captured tag holds a closing brace.
\<close>

theorem inside_buffers_every_rune:
  "(sc_state sc = 1 \<longrightarrow>
      sc_tag (scan_rune sc r) = sc_tag sc @ WriteRune r
      \<and> (if r = 125
         then sc_state (scan_rune sc r) = 0 \<and> sc_tags (scan_rune sc r) = sc_tags sc @ [sc_tag sc]
         else sc_state (scan_rune sc r) = 1 \<and> sc_tags (scan_rune sc r) = sc_tags sc))
   \<and> WriteRune 125 = ''}''
   \<and> fst (DecodeRune (CHR ''}'' # rest)) = 125
   \<and> list_all (\<lambda>t. CHR ''}'' \<notin> set t) (ExtractFileOutputTags filePattern)"
  by (simp add: extract_no_closing_brace WriteRune_brace DecodeRune_ASCII scan_rune_def)

theorem inside_buffers_every_rune_witness:
  "sc_state \<lparr>sc_tags = [''a''], sc_state = 1, sc_tag = ''b''\<rparr> = 1
   \<and> scan_rune \<lparr>sc_tags = [''a''], sc_state = 1, sc_tag = ''b''\<rparr> 125
       = \<lparr>sc_tags = [''a'', ''b''], sc_state = 0, sc_tag = ''b}''\<rparr>
   \<and> scan_rune \<lparr>sc_tags = [''a''], sc_state = 1, sc_tag = ''b''\<rparr> 65533
       = \<lparr>sc_tags = [''a''], sc_state = 1,
          sc_tag = ''b'' @ [char_of (239 :: nat), char_of (191 :: nat), char_of (189 :: nat)]\<rparr>
   \<and> fst (DecodeRune [char_of (255 :: nat), CHR ''}'']) = 65533
   \<and> list_all (\<lambda>t. CHR ''}'' \<notin> set t) (ExtractFileOutputTags ''{a}_{b}_{a}'')"
  using inside_buffers_every_rune
          [of "\<lparr>sc_tags = [''a''], sc_state = 1, sc_tag = ''b''\<rparr>" 125 "[]" "''{a}_{b}_{a}''"]
        inside_buffers_every_rune
          [of "\<lparr>sc_tags = [''a''], sc_state = 1, sc_tag = ''b''\<rparr>" 65533 "[]" "''{a}_{b}_{a}''"]
  by (simp add: scan_rune_def WriteRune_def DecodeRune_def RuneError_def)

subsection \<open>The tag resolver\<close>

lemma loop_step:
  "GetTagValue_loop w fs c t ex filePath (outputTag # rest) tagValue =
     (case resolve_alternative w fs c t ex filePath outputTag of
        Panics \<Rightarrow> Panics
      | Returns (Inl err) \<Rightarrow> GetTagValue_loop w fs c t ex filePath rest tagValue
      | Returns (Inr v) \<Rightarrow> GetTagValue_loop w fs c t ex filePath rest v)"
  by (simp add: resolve_alternative_def split: prod.splits sum.splits)

lemma GetExifTagValue_decoded: "\<exists>r. GetExifTagValue w (Some x) tag properties = Returns r"
  by (simp add: GetExifTagValue_def Exif_Get_def split: sum.splits list.splits)

lemma GetExifTagValue_nil: "GetExifTagValue w None tag properties = Panics"
  by (simp add: GetExifTagValue_def Exif_Get_def)

lemma resolve_decoded: "\<exists>r. resolve_alternative w fs c t (Some x) filePath outputTag = Returns r"
  using GetExifTagValue_decoded [of w x] by (simp add: resolve_alternative_def)

text \<open>
  Against decoded exif data every alternative returns, and the loop ends with the value of
  the last alternative that resolved, or with the value it started with.
\<close>

lemma loop_last_success:
  "GetTagValue_loop w fs c t (Some x) filePath alternatives tagValue =
     Returns
       (if successes (returned (map (resolve_alternative w fs c t (Some x) filePath)
              alternatives)) = []
        then tagValue
        else last (successes (returned (map (resolve_alternative w fs c t (Some x) filePath)
               alternatives))))"
proof (induction alternatives arbitrary: tagValue)
  case Nil
  then show ?case by simp
next
  case (Cons outputTag rest)
  obtain r where r: "resolve_alternative w fs c t (Some x) filePath outputTag = Returns r"
    using resolve_decoded [of w fs c t x filePath outputTag] by blast
  show ?case
  proof (cases r)
    case (Inl err)
    then show ?thesis
      by (simp only: loop_step r Cons.IH list.map returned.simps successes.simps
          outcome.case sum.case)
  next
    case (Inr v)
    then show ?thesis
      by (simp only: loop_step r Cons.IH list.map returned.simps successes.simps
          outcome.case sum.case) simp
  qed
qed

lemma GetTagValue_decoded:
  "GetTagValue w fs c t (Some x) filePath fileTag
     = Returns (tag_value w fs c t x filePath fileTag, None)"
  by (simp add: GetTagValue_def loop_last_success tag_value_def last_success_def)

lemma successes_append: "successes (rs @ qs) = successes rs @ successes qs"
  by (induction rs rule: successes.induct) simp_all

lemma last_success_facts:
  "last_success (rs @ [Inr v]) = v"
  "last_success (rs @ [Inl err]) = last_success rs"
  "last_success [] = []"
  by (simp_all add: last_success_def successes_append)

lemma formatted_numbers:
  "Sprintf_0d 6 0 = ''000000''"
  "Sprintf_0d 6 1 = ''000001''"
  "Sprintf_0d 6 2 = ''000002''"
  "Sprintf_0d 2 3 = ''03''"
  "Itoa 2016 = ''2016''"
  by code_simp+

lemma GetFileTagValue_no_stat:
  "os_Stat w fs filePath = Inl err \<Longrightarrow>
     GetFileTagValue w fs c t filePath tag properties = Inl err"
  by (simp add: GetFileTagValue_def)

lemma GetFileTagValue_index:
  assumes "os_Stat w fs filePath = Inr fileMeta"
  shows "GetFileTagValue w fs c t filePath tag (''Index'' # others) = Inr (Sprintf_0d 6 (Len c))"
    and "GetFileTagValue w fs c t filePath tag (''IndexByCaptureYear'' # others)
           = Inr (Sprintf_0d 6 (fst (GetIndexByYear c t)))"
    and "GetFileTagValue w fs c t filePath tag (''IndexByCaptureMonth'' # others)
           = Inr (Sprintf_0d 6 (fst (GetIndexByMonth c t)))"
    and "GetFileTagValue w fs c t filePath tag (''IndexByCaptureDate'' # others)
           = Inr (Sprintf_0d 6 (fst (GetIndexByDay c t)))"
  using assms by (simp_all add: GetFileTagValue_def)

text \<open>
  Claim C10. A \<open>File\<close> alternative asks for the file's attributes first. When
  \<open>os.Stat\<close> fails, \<open>GetFileTagValue\<close> returns that error for every property, the
  four index properties included, and \<open>GetTagValue\<close> passes the alternative over: the
  value found so far stays. When \<open>os.Stat\<close> succeeds, the values of the four index
  properties are read from the collector and the capture time alone.
\<close>

theorem file_alternative_needs_stat:
  "(os_Stat w fs filePath = Inl err \<longrightarrow>
      GetFileTagValue w fs c t filePath tag properties = Inl err
      \<and> GetFileTagValue w fs c t filePath ''File'' [''Index''] = Inl err
      \<and> GetFileTagValue w fs c t filePath ''File'' [''IndexByCaptureYear''] = Inl err
      \<and> GetFileTagValue w fs c t filePath ''File'' [''IndexByCaptureMonth''] = Inl err
      \<and> GetFileTagValue w fs c t filePath ''File'' [''IndexByCaptureDate''] = Inl err
      \<and> (fst (ParseTagProperties outputTag) = ''File'' \<longrightarrow>
           GetTagValue_loop w fs c t ex filePath (outputTag # rest) tagValue
             = GetTagValue_loop w fs c t ex filePath rest tagValue))
   \<and> (os_Stat w fs filePath = Inr fileMeta \<longrightarrow>
      GetFileTagValue w fs c t filePath ''File'' [''Index''] = Inr (Sprintf_0d 6 (Len c))
      \<and> GetFileTagValue w fs c t filePath ''File'' [''IndexByCaptureYear'']
           = Inr (Sprintf_0d 6 (fst (GetIndexByYear c t)))
      \<and> GetFileTagValue w fs c t filePath ''File'' [''IndexByCaptureMonth'']
           = Inr (Sprintf_0d 6 (fst (GetIndexByMonth c t)))
      \<and> GetFileTagValue w fs c t filePath ''File'' [''IndexByCaptureDate'']
           = Inr (Sprintf_0d 6 (fst (GetIndexByDay c t))))"
proof (intro conjI impI)
  assume stat: "os_Stat w fs filePath = Inl err"
    and is_file: "fst (ParseTagProperties outputTag) = ''File''"
  have "resolve_alternative w fs c t ex filePath outputTag = Returns (Inl err)"
    using stat is_file by (simp add: resolve_alternative_def GetFileTagValue_no_stat)
  then show "GetTagValue_loop w fs c t ex filePath (outputTag # rest) tagValue
      = GetTagValue_loop w fs c t ex filePath rest tagValue"
    by (simp only: loop_step outcome.case sum.case)
qed (simp_all add: GetFileTagValue_no_stat GetFileTagValue_index)

theorem file_alternative_needs_stat_witness:
  "os_Stat (example_world True) () ''missing.jpg''
     = Inl ''stat missing.jpg: no such file or directory''
   \<and> fst (ParseTagProperties ''File.Index'') = ''File''
   \<and> GetFileTagValue (example_world True) () NewDateIndexCollector zero_Time ''missing.jpg''
        ''File'' [''Index''] = Inl ''stat missing.jpg: no such file or directory''
   \<and> GetTagValue_loop (example_world True) () NewDateIndexCollector zero_Time None
        ''missing.jpg'' [''File.Index''] ''kept'' = Returns ''kept''
   \<and> os_Stat (example_world True) () ''a.jpg''
        = Inr \<lparr>Name = ''a.jpg'', Size = 1024, ModTime = Date_UTC 2016 3 5 12 30 0\<rparr>
   \<and> GetFileTagValue (example_world True) () NewDateIndexCollector zero_Time ''a.jpg''
        ''File'' [''IndexByCaptureDate''] = Inr ''000000''"
proof -
  have stat: "os_Stat (example_world True) () ''missing.jpg''
      = Inl ''stat missing.jpg: no such file or directory''"
    by (simp add: example_world_def)
  have stat': "os_Stat (example_world True) () ''a.jpg''
      = Inr \<lparr>Name = ''a.jpg'', Size = 1024, ModTime = Date_UTC 2016 3 5 12 30 0\<rparr>"
    by (simp add: example_world_def)
  have is_file: "fst (ParseTagProperties ''File.Index'') = ''File''"
    by (simp add: ParseTagProperties_def)
  have "fst (GetIndexByDay NewDateIndexCollector zero_Time) = 0"
    by (simp add: GetIndexByDay_def NewDateIndexCollector_def)
  then have zero: "Sprintf_0d 6 (fst (GetIndexByDay NewDateIndexCollector zero_Time)) = ''000000''"
    by (simp add: formatted_numbers)
  show ?thesis
    using file_alternative_needs_stat [of "example_world True" "()" "''missing.jpg''"
        "''stat missing.jpg: no such file or directory''" NewDateIndexCollector zero_Time
        "''File''" "[''Index'']" "''File.Index''" None "[]" "''kept''"]
      file_alternative_needs_stat [of "example_world True" "()" "''a.jpg''" _
        NewDateIndexCollector zero_Time _ _ _ _ _ _
        "\<lparr>Name = ''a.jpg'', Size = 1024, ModTime = Date_UTC 2016 3 5 12 30 0\<rparr>"]
    by (simp add: stat stat' is_file zero)
qed

subsection \<open>Timestamp properties\<close>

lemma TimestampProp_unrecognised:
  assumes "property \<notin> set [''Year'', ''Month'', ''Day'', ''Hour'', ''Minute'', ''Second'',
             ''Nanosecond'', ''Unix'', ''Weekday'', ''Offset'']"
  shows "TimestampProp timestamp [property] = Format_RFC3339 timestamp"
  using assms by (simp add: TimestampProp_def)

lemma TimestampProp_absent: "TimestampProp timestamp [] = Format_RFC3339 timestamp"
  by (simp add: TimestampProp_def)

lemma GetExifTagValue_timestamp:
  assumes "tag \<in> set timestampFields"
    and "exif_Get w x tag = Inr (Inr stringTagValue)"
    and "time_Parse w stringTagValue = Inr timestamp"
  shows "GetExifTagValue w (Some x) tag (property # others)
           = Returns (Inr (TimestampProp timestamp [property]))"
    and "GetExifTagValue w (Some x) tag [] = Returns (Inr [])"
  using assms by (simp_all add: GetExifTagValue_def Exif_Get_def StringVal_def)

lemma FileProp_ModTime_absent:
  "FileProp fileMeta [''ModTime''] = Format_RFC3339 (ModTime fileMeta)"
  by (simp add: FileProp_def TimestampProp_def)

lemma example_formatted:
  "Format_RFC3339 (Date_UTC 2016 3 4 10 0 0) = ''2016-03-04T10:00:00Z''"
  by (simp add: Format_RFC3339_def Format_zone_def appendInt_def zero_pad_def Date_UTC_def
      decimal.simps digit_char_def)

text \<open>
  Claim C7 at the tag \<open>DateTime\<close> with no property, on a file whose \<open>DateTime\<close> is
  2016:03:04 10:00:00. \<open>TimestampProp\<close> with no property is the full timestamp, and so
  is the \<open>DateTime\<close> tag with a property that is not recognised; but
  \<open>GetExifTagValue\<close> calls \<open>TimestampProp\<close> only when there is a property, and the
  tag with no property resolves to the empty string.
\<close>

theorem timestamp_tag_without_property:
  "TimestampProp (Date_UTC 2016 3 4 10 0 0) [] = ''2016-03-04T10:00:00Z''
   \<and> GetExifTagValue (example_world True) (Some ''a.jpg'') ''DateTime'' [''Century'']
       = Returns (Inr ''2016-03-04T10:00:00Z'')
   \<and> GetExifTagValue (example_world True) (Some ''a.jpg'') ''DateTime'' [] = Returns (Inr [])
   \<and> GetTagValue (example_world True) () NewDateIndexCollector (Date_UTC 2016 3 4 10 0 0)
        (Some ''a.jpg'') ''a.jpg'' ''DateTime'' = Returns ([], None)"
proof -
  have field: "''DateTime'' \<in> set timestampFields"
    by (simp add: timestampFields_def)
  have got: "exif_Get (example_world True) ''a.jpg'' ''DateTime''
      = Inr (Inr ''2016:03:04 10:00:00'')"
    by (simp add: example_world_def example_Get_def)
  have parsed: "time_Parse (example_world True) ''2016:03:04 10:00:00''
      = Inr (Date_UTC 2016 3 4 10 0 0)"
    by (simp add: example_world_def example_Parse_def)
  have absent: "GetExifTagValue (example_world True) (Some ''a.jpg'') ''DateTime'' []
      = Returns (Inr [])"
    using field got parsed by (rule GetExifTagValue_timestamp)
  have other: "GetExifTagValue (example_world True) (Some ''a.jpg'') ''DateTime'' [''Century'']
      = Returns (Inr (TimestampProp (Date_UTC 2016 3 4 10 0 0) [''Century'']))"
    using field got parsed by (rule GetExifTagValue_timestamp)
  have "GetTagValue (example_world True) () NewDateIndexCollector (Date_UTC 2016 3 4 10 0 0)
        (Some ''a.jpg'') ''a.jpg'' ''DateTime'' = Returns ([], None)"
    by (simp add: GetTagValue_def ParseTagProperties_def absent)
  then show ?thesis
    by (simp add: absent other TimestampProp_absent TimestampProp_unrecognised example_formatted)
qed

subsection \<open>The pattern renderer\<close>

lemma GetTagValue_no_error: "GetTagValue w fs c t ex f tag \<noteq> Returns (v, Some err)"
  by (simp add: GetTagValue_def split: outcome.splits)

lemma ApplyPattern_tags_no_error:
  "ApplyPattern_tags w fs c t ex f fileTags outputFilename \<noteq> Returns (Inl err)"
proof (induction fileTags arbitrary: outputFilename)
  case Nil
  then show ?case by simp
next
  case (Cons tag rest)
  show ?case
  proof (cases "GetTagValue w fs c t ex f tag")
    case Panics
    then show ?thesis by simp
  next
    case (Returns r)
    obtain v e where r: "r = (v, e)"
      by (cases r)
    have "e = None"
      using Returns r GetTagValue_no_error [of w fs c t ex f tag v] by (cases e) simp_all
    then show ?thesis
      using Returns r Cons.IH by simp
  qed
qed

lemma ApplyPattern_tags_foldl:
  "ApplyPattern_tags w fs c t (Some x) f fileTags outputFilename =
     Returns (Inr (foldl (\<lambda>outputFilename tag.
                   ReplaceTagInPattern outputFilename tag (tag_value w fs c t x f tag))
            outputFilename fileTags))"
  by (induction fileTags arbitrary: outputFilename) (simp_all add: GetTagValue_decoded)

lemma ApplyPattern_tags_rendered:
  "ApplyPattern_tags w fs c t (Some x) f fileTags outputFilePattern =
     Returns (Inr (rendered_name w fs c t x f fileTags outputFilePattern))"
  by (simp add: ApplyPattern_tags_foldl rendered_name_def)

lemma tag_value_eq:
  assumes "GetTagValue w fs c t (Some x) f tag = Returns (v, None)"
  shows "tag_value w fs c t x f tag = v"
  using assms by (simp add: GetTagValue_decoded)

lemma capture_error_zero_time:
  assumes "GetFileCaptureTime w fs f = Returns (t, ex, Some err)"
  shows "t = zero_Time"
  using assms
  by (auto simp add: GetFileCaptureTime_def
      split: prod.splits option.splits sum.splits outcome.splits)

lemma capture_error_no_Add:
  assumes "GetFileCaptureTime w fs f = Returns (t, ex, Some err)"
  shows "IncrementCaptureIndex w fs f c = Returns ((t, ex, Some err), c)"
  using assms by (simp add: IncrementCaptureIndex_def)

lemma capture_ok_Add:
  assumes "GetFileCaptureTime w fs f = Returns (t, ex, None)"
  shows "IncrementCaptureIndex w fs f c = Returns ((t, ex, None), Add c t)"
  using assms by (simp add: IncrementCaptureIndex_def)

text \<open>When the exif pointer is not nil the capture-time step returns, with that pointer.\<close>

lemma capture_decoded:
  assumes "fst (GetExifData w fs f) = Some x"
  shows "\<exists>t err. GetFileCaptureTime w fs f = Returns (t, Some x, err)"
proof (cases "GetExifData w fs f")
  case (Pair exifData e)
  then have "exifData = Some x"
    using assms by simp
  then show ?thesis
    using Pair
    by (auto simp add: GetFileCaptureTime_def Exif_Get_def
        split: option.splits sum.splits)
qed

lemma increment_decoded:
  assumes "fst (GetExifData w fs f) = Some x"
  shows "\<exists>t err c'. IncrementCaptureIndex w fs f c = Returns ((t, Some x, err), c')"
proof -
  obtain t err where "GetFileCaptureTime w fs f = Returns (t, Some x, err)"
    using capture_decoded [OF assms] by blast
  then show ?thesis
    by (cases err) (simp_all add: IncrementCaptureIndex_def)
qed

text \<open>One turn of the outer loop, in a dry run and in a run that renames.\<close>

lemma files_step_dry:
  assumes "ArgsDryRun w"
    and "IncrementCaptureIndex w fs f c = Returns ((t, Some x, err), c')"
  shows "ApplyPattern_files w (f # files) fileTags pat c fs events =
     ApplyPattern_files w files fileTags pat c' fs
       (events @ [Printed f (rendered_name w fs c' t x f fileTags pat)])"
  using assms by (simp add: ApplyPattern_tags_rendered)

lemma files_step_rename:
  assumes "\<not> ArgsDryRun w"
    and "IncrementCaptureIndex w fs f c = Returns ((t, Some x, err), c')"
  shows "ApplyPattern_files w (f # files) fileTags pat c fs events =
     (case os_Rename w fs f (rendered_name w fs c' t x f fileTags pat) of
        Inl err \<Rightarrow>
          \<lparr>collector_of = c', filesystem_of = fs, events_of = events,
            ending_of = Returned (Some err)\<rparr>
      | Inr fs' \<Rightarrow>
          ApplyPattern_files w files fileTags pat c' fs'
            (events @ [Renamed f (rendered_name w fs c' t x f fileTags pat)]))"
  using assms by (simp add: ApplyPattern_tags_rendered)

text \<open>
  A turn of the outer loop ends the run in a panic, or ends it with the error of
  \<open>os.Rename\<close>, or adds one event for its file and goes on.
\<close>

lemma files_step_shape:
  "(\<exists>c'. ApplyPattern_files w (f # files) fileTags pat c fs events
           = \<lparr>collector_of = c', filesystem_of = fs, events_of = events,
              ending_of = Panicked\<rparr>)
   \<or> (\<exists>c' e out. \<not> ArgsDryRun w \<and> os_Rename w fs f out = Inl e
         \<and> ApplyPattern_files w (f # files) fileTags pat c fs events
           = \<lparr>collector_of = c', filesystem_of = fs, events_of = events,
              ending_of = Returned (Some e)\<rparr>)
   \<or> (\<exists>c' fs' e. event_file e = f
         \<and> ApplyPattern_files w (f # files) fileTags pat c fs events
           = ApplyPattern_files w files fileTags pat c' fs' (events @ [e]))"
proof (cases "IncrementCaptureIndex w fs f c")
  case Panics
  then show ?thesis by simp
next
  case (Returns r)
  obtain t ex err c' where r: "r = ((t, ex, err), c')"
    by (metis prod.exhaust)
  show ?thesis
  proof (cases "ApplyPattern_tags w fs c' t ex f fileTags pat")
    case Panics
    then show ?thesis
      using Returns r by simp
  next
    case tags: (Returns s)
    show ?thesis
    proof (cases s)
      case (Inl e)
      then show ?thesis
        using tags ApplyPattern_tags_no_error [of w fs c' t ex f fileTags pat e] by simp
    next
      case (Inr out)
      show ?thesis
      proof (cases "ArgsDryRun w")
        case True
        have "ApplyPattern_files w (f # files) fileTags pat c fs events
            = ApplyPattern_files w files fileTags pat c' fs (events @ [Printed f out])"
          using Returns r tags Inr True by simp
        moreover have "event_file (Printed f out) = f"
          by simp
        ultimately show ?thesis by blast
      next
        case False
        show ?thesis
        proof (cases "os_Rename w fs f out")
          case failed: (Inl e)
          have "ApplyPattern_files w (f # files) fileTags pat c fs events
              = \<lparr>collector_of = c', filesystem_of = fs, events_of = events,
                 ending_of = Returned (Some e)\<rparr>"
            using Returns r tags Inr False failed by simp
          then show ?thesis
            using False failed by blast
        next
          case renamed: (Inr fs')
          have "ApplyPattern_files w (f # files) fileTags pat c fs events
              = ApplyPattern_files w files fileTags pat c' fs' (events @ [Renamed f out])"
            using Returns r tags Inr False renamed by simp
          moreover have "event_file (Renamed f out) = f"
            by simp
          ultimately show ?thesis by blast
        qed
      qed
    qed
  qed
qed

lemma files_Nil:
  "ApplyPattern_files w [] fileTags pat c fs events =
     \<lparr>collector_of = c, filesystem_of = fs, events_of = events, ending_of = Returned None\<rparr>"
  by simp

declare ApplyPattern_files.simps [simp del]

lemma take_snoc:
  assumes "take (length (events @ [e])) xs = events @ [e]"
  shows "take (length events) xs = events"
proof -
  have "take (length events) (take (Suc (length events)) xs)
      = take (length events) (events @ [e])"
    using assms by simp
  then show ?thesis by (simp add: min_def)
qed

lemma files_events_extend:
  "take (length events) (events_of (ApplyPattern_files w files fileTags pat c fs events)) = events"
proof (induction files arbitrary: c fs events)
  case Nil
  then show ?case by (simp add: files_Nil)
next
  case (Cons f files)
  consider
    (panic) c' where "ApplyPattern_files w (f # files) fileTags pat c fs events
        = \<lparr>collector_of = c', filesystem_of = fs, events_of = events, ending_of = Panicked\<rparr>"
    | (failed) c' e where "ApplyPattern_files w (f # files) fileTags pat c fs events
        = \<lparr>collector_of = c', filesystem_of = fs, events_of = events,
           ending_of = Returned (Some e)\<rparr>"
    | (goes_on) c' fs' e where "ApplyPattern_files w (f # files) fileTags pat c fs events
        = ApplyPattern_files w files fileTags pat c' fs' (events @ [e])"
    using files_step_shape [of w f files fileTags pat c fs events] by blast
  then show ?case
  proof cases
    case panic
    then show ?thesis by simp
  next
    case failed
    then show ?thesis by simp
  next
    case goes_on
    have "take (length (events @ [e]))
            (events_of (ApplyPattern_files w files fileTags pat c' fs' (events @ [e])))
          = events @ [e]"
      by (rule Cons.IH)
    then show ?thesis
      using goes_on take_snoc by metis
  qed
qed

lemma files_no_error:
  "ending_of (ApplyPattern_files w files fileTags pat c fs events) = Returned None \<Longrightarrow>
     map event_file (events_of (ApplyPattern_files w files fileTags pat c fs events))
       = map event_file events @ files"
proof (induction files arbitrary: c fs events)
  case Nil
  then show ?case by (simp add: files_Nil)
next
  case (Cons f files)
  consider
    (panic) c' where "ApplyPattern_files w (f # files) fileTags pat c fs events
        = \<lparr>collector_of = c', filesystem_of = fs, events_of = events, ending_of = Panicked\<rparr>"
    | (failed) c' e where "ApplyPattern_files w (f # files) fileTags pat c fs events
        = \<lparr>collector_of = c', filesystem_of = fs, events_of = events,
           ending_of = Returned (Some e)\<rparr>"
    | (goes_on) c' fs' e where "event_file e = f"
        "ApplyPattern_files w (f # files) fileTags pat c fs events
        = ApplyPattern_files w files fileTags pat c' fs' (events @ [e])"
    using files_step_shape [of w f files fileTags pat c fs events] by blast
  then show ?case
  proof cases
    case panic
    then show ?thesis using Cons.prems by simp
  next
    case failed
    then show ?thesis using Cons.prems by simp
  next
    case goes_on
    have "ending_of (ApplyPattern_files w files fileTags pat c' fs' (events @ [e]))
        = Returned None"
      using Cons.prems goes_on(2) by simp
    then have "map event_file (events_of (ApplyPattern_files w files fileTags pat c' fs'
          (events @ [e]))) = map event_file (events @ [e]) @ files"
      by (rule Cons.IH)
    then show ?thesis
      using goes_on by simp
  qed
qed

lemma files_error_is_rename:
  "ending_of (ApplyPattern_files w files fileTags pat c fs events) = Returned (Some e) \<Longrightarrow>
     \<not> ArgsDryRun w \<and> (\<exists>fs' oldpath newpath. os_Rename w fs' oldpath newpath = Inl e)"
proof (induction files arbitrary: c fs events)
  case Nil
  then show ?case by (simp add: files_Nil)
next
  case (Cons f files)
  consider
    (panic) c' where "ApplyPattern_files w (f # files) fileTags pat c fs events
        = \<lparr>collector_of = c', filesystem_of = fs, events_of = events, ending_of = Panicked\<rparr>"
    | (failed) c' e' out where "\<not> ArgsDryRun w" "os_Rename w fs f out = Inl e'"
        "ApplyPattern_files w (f # files) fileTags pat c fs events
        = \<lparr>collector_of = c', filesystem_of = fs, events_of = events,
           ending_of = Returned (Some e')\<rparr>"
    | (goes_on) c' fs' ev where "ApplyPattern_files w (f # files) fileTags pat c fs events
        = ApplyPattern_files w files fileTags pat c' fs' (events @ [ev])"
    using files_step_shape [of w f files fileTags pat c fs events] by blast
  then show ?case
  proof cases
    case panic
    then show ?thesis using Cons.prems by simp
  next
    case failed
    then have "e' = e"
      using Cons.prems by simp
    then show ?thesis
      using failed by blast
  next
    case goes_on
    have "ending_of (ApplyPattern_files w files fileTags pat c' fs' (events @ [ev]))
        = Returned (Some e)"
      using Cons.prems goes_on by simp
    then show ?thesis
      by (rule Cons.IH)
  qed
qed

text \<open>A dry run over files whose exif pointer is not nil prints every file and returns nil.\<close>

lemma files_dry_run_decoded:
  assumes "ArgsDryRun w"
  shows "\<forall>f \<in> set files. fst (GetExifData w fs f) \<noteq> None \<Longrightarrow>
     ending_of (ApplyPattern_files w files fileTags pat c fs events) = Returned None
     \<and> map event_file (events_of (ApplyPattern_files w files fileTags pat c fs events))
         = map event_file events @ files"
proof (induction files arbitrary: c events)
  case Nil
  then show ?case by (simp add: files_Nil)
next
  case (Cons f files)
  obtain x where x: "fst (GetExifData w fs f) = Some x"
    using Cons.prems by auto
  obtain t err c' where inc: "IncrementCaptureIndex w fs f c = Returns ((t, Some x, err), c')"
    using increment_decoded [OF x] by blast
  have rest: "\<forall>f \<in> set files. fst (GetExifData w fs f) \<noteq> None"
    using Cons.prems by simp
  show ?case
    by (simp only: files_step_dry [OF assms inc] Cons.IH [OF rest]) simp
qed

lemma GetTagValue_index_tags:
  assumes "os_Stat w fs f = Inr fileMeta"
  shows "GetTagValue w fs c t ex f ''File.IndexByCaptureYear''
           = Returns (Sprintf_0d 6 (index_int (ByYear c) (Year t)), None)"
    and "GetTagValue w fs c t ex f ''File.IndexByCaptureMonth''
           = Returns (Sprintf_0d 6 (index_int (index_map (ByMonth c) (Year t)) (Month t)), None)"
    and "GetTagValue w fs c t ex f ''File.IndexByCaptureDate''
           = Returns (Sprintf_0d 6
                (index_int (index_map (index_map (ByDay c) (Year t)) (Month t)) (Day t)), None)"
  using assms
  by (simp_all add: GetTagValue_def ParseTagProperties_def GetFileTagValue_def
      lookup_year lookup_month lookup_day)

lemma GetTagValue_extension:
  assumes "os_Stat w fs f = Inr fileMeta"
  shows "GetTagValue w fs c t ex f ''File.Extension''
           = Returns (strings_Replace (filepath_Ext (Name fileMeta)) ''.'' [], None)"
  using assms
  by (simp add: GetTagValue_def ParseTagProperties_def GetFileTagValue_def)

lemma GetTagValue_timestamp_tags:
  assumes "exif_Get w x ''DateTime'' = Inr (Inr stringTagValue)"
    and "time_Parse w stringTagValue = Inr t'"
  shows "GetTagValue w fs c t (Some x) f ''DateTime.Year'' = Returns (Itoa (Year t'), None)"
    and "GetTagValue w fs c t (Some x) f ''DateTime.Month''
           = Returns (Sprintf_0d 2 (Month t'), None)"
  using assms
  by (simp_all add: GetTagValue_def ParseTagProperties_def GetExifTagValue_def Exif_Get_def
      StringVal_def timestampFields_def TimestampProp_def)

lemma adds_nonneg:
  "0 \<le> adds_in_month timestamps y m" "0 \<le> adds_in_day timestamps y m d"
  by (simp_all add: adds_in_month_def adds_in_day_def)

lemma zero_year_buckets:
  assumes "adds_in_year timestamps 1 = 0"
  shows "index_int (ByYear (AddAll NewDateIndexCollector timestamps)) 1 = 0"
    and "index_int (index_map (ByMonth (AddAll NewDateIndexCollector timestamps)) 1) 1 = 0"
    and "index_int (index_map (index_map (ByDay (AddAll NewDateIndexCollector timestamps)) 1) 1) 1
           = 0"
proof -
  have m: "adds_in_month timestamps 1 1 = 0"
    using assms adds_month_le_year [of timestamps 1 1] adds_nonneg(1) [of timestamps 1 1] by simp
  have d: "adds_in_day timestamps 1 1 1 = 0"
    using m adds_day_le_month [of timestamps 1 1 1] adds_nonneg(2) [of timestamps 1 1 1] by simp
  show "index_int (ByYear (AddAll NewDateIndexCollector timestamps)) 1 = 0"
    by (simp add: year_AddAll New_fields assms)
  show "index_int (index_map (ByMonth (AddAll NewDateIndexCollector timestamps)) 1) 1 = 0"
    by (simp add: month_AddAll New_fields m)
  show "index_int (index_map (index_map (ByDay (AddAll NewDateIndexCollector timestamps)) 1) 1) 1
      = 0"
    by (simp add: day_AddAll New_fields d)
qed

lemma zero_Time_fields: "Year zero_Time = 1" "Month zero_Time = 1" "Day zero_Time = 1"
  by (simp_all add: zero_Time_def)

text \<open>The example world.\<close>

lemma example_stat:
  "f \<noteq> ''missing.jpg'' \<Longrightarrow>
     os_Stat (example_world d) () f
       = Inr \<lparr>Name = f, Size = 1024, ModTime = Date_UTC 2016 3 5 12 30 0\<rparr>"
  by (simp add: example_world_def)

lemma example_flag: "ArgsDryRun (example_world d) = d"
  by (simp add: example_world_def)

lemma example_rename:
  "oldpath \<noteq> ''locked.jpg'' \<Longrightarrow> os_Rename (example_world d) () oldpath newpath = Inr ()"
  "os_Rename (example_world d) () ''locked.jpg'' newpath
     = Inl ''rename locked.jpg: permission denied''"
  by (simp_all add: example_world_def)

lemma example_data:
  "f \<noteq> ''missing.jpg'' \<Longrightarrow> f \<noteq> ''plain.jpg'' \<Longrightarrow>
     GetExifData (example_world d) () f = (Some f, None)"
  "GetExifData (example_world d) () ''plain.jpg''
     = (None, Some ''exif: failed to find exif intro marker'')"
  by (simp_all add: GetExifData_def example_world_def)

lemma example_capture:
  "GetFileCaptureTime (example_world d) () ''a.jpg''
     = Returns (Date_UTC 2016 3 4 10 0 0, Some ''a.jpg'', None)"
  "GetFileCaptureTime (example_world d) () ''b.jpg''
     = Returns (Date_UTC 2016 3 4 10 0 0, Some ''b.jpg'', None)"
  "GetFileCaptureTime (example_world d) () ''old.jpg''
     = Returns (Date_UTC 1 1 1 0 0 0, Some ''old.jpg'', None)"
  "GetFileCaptureTime (example_world d) () ''n.jpg''
     = Returns (zero_Time, Some ''n.jpg'', Some ''exif: tag is not present'')"
  "GetFileCaptureTime (example_world d) () ''locked.jpg''
     = Returns (zero_Time, Some ''locked.jpg'', Some ''exif: tag is not present'')"
  "GetFileCaptureTime (example_world d) () ''plain.jpg''
     = Returns (zero_Time, None, Some ''exif: failed to find exif intro marker'')"
  by (simp_all add: GetFileCaptureTime_def GetExifData_def Exif_Get_def example_world_def
      example_Get_def example_Parse_def StringVal_def)

lemma example_increment:
  "IncrementCaptureIndex (example_world d) () ''a.jpg'' c
     = Returns ((Date_UTC 2016 3 4 10 0 0, Some ''a.jpg'', None),
                Add c (Date_UTC 2016 3 4 10 0 0))"
  "IncrementCaptureIndex (example_world d) () ''b.jpg'' c
     = Returns ((Date_UTC 2016 3 4 10 0 0, Some ''b.jpg'', None),
                Add c (Date_UTC 2016 3 4 10 0 0))"
  "IncrementCaptureIndex (example_world d) () ''old.jpg'' c
     = Returns ((Date_UTC 1 1 1 0 0 0, Some ''old.jpg'', None), Add c (Date_UTC 1 1 1 0 0 0))"
  "IncrementCaptureIndex (example_world d) () ''n.jpg'' c
     = Returns ((zero_Time, Some ''n.jpg'', Some ''exif: tag is not present''), c)"
  "IncrementCaptureIndex (example_world d) () ''locked.jpg'' c
     = Returns ((zero_Time, Some ''locked.jpg'', Some ''exif: tag is not present''), c)"
  "IncrementCaptureIndex (example_world d) () ''plain.jpg'' c
     = Returns ((zero_Time, None, Some ''exif: failed to find exif intro marker''), c)"
  by (simp_all add: IncrementCaptureIndex_def example_capture)

lemma Date_UTC_fields:
  "Year (Date_UTC y m d hh mm ss) = y" "Month (Date_UTC y m d hh mm ss) = m"
  "Day (Date_UTC y m d hh mm ss) = d"
  by (simp_all add: Date_UTC_def)

lemma example_day_index:
  "index_int (index_map (index_map (ByDay NewDateIndexCollector) y) m) d' = 0"
  "index_int (index_map (index_map (ByDay (Add NewDateIndexCollector (Date_UTC y m d' hh mm ss)))
     y) m) d' = 1"
  "index_int (index_map (index_map (ByDay (Add (Add NewDateIndexCollector
     (Date_UTC y m d' hh mm ss)) (Date_UTC y m d' hh mm ss))) y) m) d' = 2"
  by (simp_all add: day_Add New_fields Date_UTC_fields)

lemma example_extension:
  "strings_Replace (filepath_Ext ''a.jpg'') ''.'' [] = ''jpg''"
  "strings_Replace (filepath_Ext ''b.jpg'') ''.'' [] = ''jpg''"
  "strings_Replace (filepath_Ext ''n.jpg'') ''.'' [] = ''jpg''"
  "strings_Replace (filepath_Ext ''locked.jpg'') ''.'' [] = ''jpg''"
  "strings_Replace ''.jpg'' ''.'' [] = ''jpg''"
  by code_simp+

lemma example_replaced:
  "ReplaceTagInPattern
     (ReplaceTagInPattern ''{File.IndexByCaptureDate}.{File.Extension}''
        ''File.IndexByCaptureDate'' ''000000'') ''File.Extension'' ''jpg'' = ''000000.jpg''"
  "ReplaceTagInPattern
     (ReplaceTagInPattern ''{File.IndexByCaptureDate}.{File.Extension}''
        ''File.IndexByCaptureDate'' ''000001'') ''File.Extension'' ''jpg'' = ''000001.jpg''"
  "ReplaceTagInPattern ''{File.IndexByCaptureDate}'' ''File.IndexByCaptureDate'' ''000001''
     = ''000001''"
  "ReplaceTagInPattern ''{File.IndexByCaptureDate}'' ''File.IndexByCaptureDate'' ''000000''
     = ''000000''"
  by code_simp+

lemma example_rendered_index_ext:
  assumes "f = ''a.jpg'' \<or> f = ''n.jpg'' \<or> f = ''locked.jpg''"
  shows "rendered_name (example_world d) () c t x f [''File.IndexByCaptureDate'', ''File.Extension'']
           ''{File.IndexByCaptureDate}.{File.Extension}''
         = ReplaceTagInPattern
             (ReplaceTagInPattern ''{File.IndexByCaptureDate}.{File.Extension}''
                ''File.IndexByCaptureDate''
                (Sprintf_0d 6
                   (index_int (index_map (index_map (ByDay c) (Year t)) (Month t)) (Day t))))
             ''File.Extension'' ''jpg''"
proof -
  have stat: "os_Stat (example_world d) () f
      = Inr \<lparr>Name = f, Size = 1024, ModTime = Date_UTC 2016 3 5 12 30 0\<rparr>"
    using assms by (intro example_stat) auto
  have ext: "strings_Replace (filepath_Ext f) ''.'' [] = ''jpg''"
    using assms example_extension by auto
  show ?thesis
    by (simp add: rendered_name_def tag_value_eq [OF GetTagValue_index_tags(3) [OF stat]]
        tag_value_eq [OF GetTagValue_extension [OF stat]] ext)
qed

lemma example_rendered_index:
  assumes "f = ''old.jpg'' \<or> f = ''n.jpg''"
  shows "rendered_name (example_world d) () c t x f [''File.IndexByCaptureDate'']
           ''{File.IndexByCaptureDate}''
         = ReplaceTagInPattern ''{File.IndexByCaptureDate}'' ''File.IndexByCaptureDate''
             (Sprintf_0d 6
                (index_int (index_map (index_map (ByDay c) (Year t)) (Month t)) (Day t)))"
proof -
  have stat: "os_Stat (example_world d) () f
      = Inr \<lparr>Name = f, Size = 1024, ModTime = Date_UTC 2016 3 5 12 30 0\<rparr>"
    using assms by (intro example_stat) auto
  show ?thesis
    by (simp add: rendered_name_def tag_value_eq [OF GetTagValue_index_tags(3) [OF stat]])
qed

text \<open>
  Claim C2, as stated, has the batch stop at a file with no capture time. It does not:
  in the example world \<open>n.jpg\<close> decodes and has none of the three fields, and the run
  that renames goes on to rename \<open>n.jpg\<close> and then \<open>a.jpg\<close>, and returns no error.
\<close>

theorem batch_goes_on_without_capture_time:
  "GetFileCaptureTime (example_world False) () ''n.jpg''
     = Returns (zero_Time, Some ''n.jpg'', Some ''exif: tag is not present'')
   \<and> events_of (ApplyPattern (example_world False) () [''n.jpg'', ''a.jpg'']
        (ExtractFileOutputTags ''{File.IndexByCaptureDate}.{File.Extension}'')
        ''{File.IndexByCaptureDate}.{File.Extension}'')
       = [Renamed ''n.jpg'' ''000000.jpg'', Renamed ''a.jpg'' ''000001.jpg'']
   \<and> ending_of (ApplyPattern (example_world False) () [''n.jpg'', ''a.jpg'']
        (ExtractFileOutputTags ''{File.IndexByCaptureDate}.{File.Extension}'')
        ''{File.IndexByCaptureDate}.{File.Extension}'') = Returned None"
proof -
  have tags: "ExtractFileOutputTags ''{File.IndexByCaptureDate}.{File.Extension}''
      = [''File.IndexByCaptureDate'', ''File.Extension'']"
    by code_simp
  have flag: "\<not> ArgsDryRun (example_world False)"
    by (simp add: example_flag)
  have run: "ApplyPattern (example_world False) () [''n.jpg'', ''a.jpg'']
        [''File.IndexByCaptureDate'', ''File.Extension'']
        ''{File.IndexByCaptureDate}.{File.Extension}''
      = \<lparr>collector_of = Add NewDateIndexCollector (Date_UTC 2016 3 4 10 0 0),
         filesystem_of = (),
         events_of = [Renamed ''n.jpg'' ''000000.jpg'', Renamed ''a.jpg'' ''000001.jpg''],
         ending_of = Returned None\<rparr>"
    by (simp add: ApplyPattern_def files_step_rename [OF flag example_increment(4)]
        files_step_rename [OF flag example_increment(1)] files_Nil example_rename
        example_rendered_index_ext zero_Time_fields Date_UTC_fields example_day_index
        formatted_numbers example_replaced)
  show ?thesis
    by (simp add: tags run example_capture)
qed

text \<open>
  Claim C2, amended. When none of the three fields resolves,
  \<open>IncrementCaptureIndex\<close> returns the error of the capture-time step and leaves the
  collector as it was; \<open>ApplyPattern\<close> does not read that error. A dry run over files
  whose exif data decodes (the pointer is not nil) prints a line for each file, in order,
  and returns no error, whether their capture times resolve or not. Any run returns an
  error only when \<open>os.Rename\<close> returned it, and a run that returns no error has an
  event for each file, in order.
\<close>

theorem capture_error_is_not_read:
  "(GetFileCaptureTime w fs path = Returns (t, ex, Some err) \<longrightarrow>
      IncrementCaptureIndex w fs path c = Returns ((t, ex, Some err), c))
   \<and> (ArgsDryRun w \<and> (\<forall>f \<in> set files. fst (GetExifData w fs f) \<noteq> None) \<longrightarrow>
        ending_of (ApplyPattern w fs files fileTags pat) = Returned None
        \<and> map event_file (events_of (ApplyPattern w fs files fileTags pat)) = files)
   \<and> (ending_of (ApplyPattern w fs files fileTags pat) = Returned (Some e) \<longrightarrow>
        \<not> ArgsDryRun w \<and> (\<exists>fs' oldpath newpath. os_Rename w fs' oldpath newpath = Inl e))
   \<and> (ending_of (ApplyPattern w fs files fileTags pat) = Returned None \<longrightarrow>
        map event_file (events_of (ApplyPattern w fs files fileTags pat)) = files)"
proof (intro conjI impI)
  assume "GetFileCaptureTime w fs path = Returns (t, ex, Some err)"
  then show "IncrementCaptureIndex w fs path c = Returns ((t, ex, Some err), c)"
    by (rule capture_error_no_Add)
next
  assume dry: "ArgsDryRun w \<and> (\<forall>f \<in> set files. fst (GetExifData w fs f) \<noteq> None)"
  then have all: "\<forall>f \<in> set files. fst (GetExifData w fs f) \<noteq> None"
    by simp
  from dry have flag: "ArgsDryRun w"
    by simp
  show "ending_of (ApplyPattern w fs files fileTags pat) = Returned None"
    using files_dry_run_decoded [OF flag all, of fileTags pat NewDateIndexCollector "[]"]
    by (simp add: ApplyPattern_def)
  show "map event_file (events_of (ApplyPattern w fs files fileTags pat)) = files"
    using files_dry_run_decoded [OF flag all, of fileTags pat NewDateIndexCollector "[]"]
    by (simp add: ApplyPattern_def)
next
  assume failed: "ending_of (ApplyPattern w fs files fileTags pat) = Returned (Some e)"
  then show "\<not> ArgsDryRun w"
    using files_error_is_rename [of w files fileTags pat NewDateIndexCollector fs "[]" e]
    by (simp add: ApplyPattern_def)
  from failed show "\<exists>fs' oldpath newpath. os_Rename w fs' oldpath newpath = Inl e"
    using files_error_is_rename [of w files fileTags pat NewDateIndexCollector fs "[]" e]
    by (simp add: ApplyPattern_def)
next
  assume "ending_of (ApplyPattern w fs files fileTags pat) = Returned None"
  then show "map event_file (events_of (ApplyPattern w fs files fileTags pat)) = files"
    using files_no_error [of w files fileTags pat NewDateIndexCollector fs "[]"]
    by (simp add: ApplyPattern_def)
qed

theorem capture_error_is_not_read_witness:
  "GetFileCaptureTime (example_world True) () ''n.jpg''
     = Returns (zero_Time, Some ''n.jpg'', Some ''exif: tag is not present'')
   \<and> IncrementCaptureIndex (example_world True) () ''n.jpg'' NewDateIndexCollector
       = Returns ((zero_Time, Some ''n.jpg'', Some ''exif: tag is not present''),
                  NewDateIndexCollector)
   \<and> ArgsDryRun (example_world True)
   \<and> fst (GetExifData (example_world True) () ''n.jpg'') = Some ''n.jpg''
   \<and> fst (GetExifData (example_world True) () ''a.jpg'') = Some ''a.jpg''
   \<and> ending_of (ApplyPattern (example_world True) () [''n.jpg'', ''a.jpg'']
        [''File.IndexByCaptureDate'', ''File.Extension'']
        ''{File.IndexByCaptureDate}.{File.Extension}'') = Returned None
   \<and> map event_file (events_of (ApplyPattern (example_world True) () [''n.jpg'', ''a.jpg'']
        [''File.IndexByCaptureDate'', ''File.Extension'']
        ''{File.IndexByCaptureDate}.{File.Extension}'')) = [''n.jpg'', ''a.jpg'']
   \<and> ending_of (ApplyPattern (example_world False) () [''a.jpg'', ''locked.jpg'', ''b.jpg'']
        [''File.IndexByCaptureDate'', ''File.Extension'']
        ''{File.IndexByCaptureDate}.{File.Extension}'')
       = Returned (Some ''rename locked.jpg: permission denied'')
   \<and> \<not> ArgsDryRun (example_world False)
   \<and> (\<exists>fs' oldpath newpath.
         os_Rename (example_world False) fs' oldpath newpath
           = Inl ''rename locked.jpg: permission denied'')"
proof -
  have flag: "\<not> ArgsDryRun (example_world False)"
    by (simp add: example_flag)
  have run: "ApplyPattern (example_world False) () [''a.jpg'', ''locked.jpg'', ''b.jpg'']
        [''File.IndexByCaptureDate'', ''File.Extension'']
        ''{File.IndexByCaptureDate}.{File.Extension}''
      = \<lparr>collector_of = Add NewDateIndexCollector (Date_UTC 2016 3 4 10 0 0),
         filesystem_of = (),
         events_of = [Renamed ''a.jpg'' ''000001.jpg''],
         ending_of = Returned (Some ''rename locked.jpg: permission denied'')\<rparr>"
    by (simp add: ApplyPattern_def files_step_rename [OF flag example_increment(1)]
        files_step_rename [OF flag example_increment(5)] example_rename
        example_rendered_index_ext zero_Time_fields Date_UTC_fields example_day_index
        formatted_numbers example_replaced)
  show ?thesis
    using capture_error_is_not_read [where w = "example_world True" and fs = "()"
        and path = "''n.jpg''" and t = zero_Time and ex = "Some ''n.jpg''"
        and err = "''exif: tag is not present''"
        and c = NewDateIndexCollector and files = "[''n.jpg'', ''a.jpg'']"
        and fileTags = "[''File.IndexByCaptureDate'', ''File.Extension'']"
        and pat = "''{File.IndexByCaptureDate}.{File.Extension}''"]
      capture_error_is_not_read [where w = "example_world False" and fs = "()"
        and files = "[''a.jpg'', ''locked.jpg'', ''b.jpg'']"
        and fileTags = "[''File.IndexByCaptureDate'', ''File.Extension'']"
        and pat = "''{File.IndexByCaptureDate}.{File.Extension}''"
        and e = "''rename locked.jpg: permission denied''"]
    by (simp add: example_capture example_flag example_data run)
qed

text \<open>
  Claim C3, as stated, has the capture-index tags of a file with no capture time read
  zero. They read the buckets of the zero timestamp, year 1, January 1: in the example
  world \<open>old.jpg\<close> carries that very date, and \<open>n.jpg\<close>, which has no capture time
  and comes after it, is given the index 000001.
\<close>

theorem index_of_zero_time_not_zero:
  "GetFileCaptureTime (example_world True) () ''n.jpg''
     = Returns (zero_Time, Some ''n.jpg'', Some ''exif: tag is not present'')
   \<and> events_of (ApplyPattern (example_world True) () [''old.jpg'', ''n.jpg'']
        (ExtractFileOutputTags ''{File.IndexByCaptureDate}'') ''{File.IndexByCaptureDate}'')
       = [Printed ''old.jpg'' ''000001'', Printed ''n.jpg'' ''000001'']"
proof -
  have tags: "ExtractFileOutputTags ''{File.IndexByCaptureDate}'' = [''File.IndexByCaptureDate'']"
    by code_simp
  have flag: "ArgsDryRun (example_world True)"
    by (simp add: example_flag)
  have run: "ApplyPattern (example_world True) () [''old.jpg'', ''n.jpg'']
        [''File.IndexByCaptureDate''] ''{File.IndexByCaptureDate}''
      = \<lparr>collector_of = Add NewDateIndexCollector (Date_UTC 1 1 1 0 0 0),
         filesystem_of = (),
         events_of = [Printed ''old.jpg'' ''000001'', Printed ''n.jpg'' ''000001''],
         ending_of = Returned None\<rparr>"
    by (simp add: ApplyPattern_def files_step_dry [OF flag example_increment(3)]
        files_step_dry [OF flag example_increment(4)] files_Nil
        example_rendered_index zero_Time_fields Date_UTC_fields example_day_index
        formatted_numbers example_replaced)
  show ?thesis
    by (simp add: tags run example_capture)
qed

text \<open>
  Claim C3, amended. For a file whose exif data decodes (the pointer is not nil) but
  whose capture time cannot be determined: the timestamp it is rendered with is the zero
  time, and \<open>Add\<close> is not called, the collector stays as it was; the file is still
  rendered, its output name is produced, printed in a dry run and passed to
  \<open>os.Rename\<close> otherwise. For any file whose attributes can be read and that is
  rendered with the zero time, the tags \<open>File.IndexByCaptureYear\<close>,
  \<open>File.IndexByCaptureMonth\<close> and \<open>File.IndexByCaptureDate\<close> are the six-digit
  counters of the collector's buckets for year 1, January 1, which are 000000 when no file
  added before had a capture time in year 1. And what has been printed or renamed stays as
  it is whatever the files that follow.
\<close>

theorem undetermined_capture_time:
  "(GetFileCaptureTime w fs path = Returns (t, Some x, Some err) \<longrightarrow>
      t = zero_Time
      \<and> IncrementCaptureIndex w fs path c = Returns ((zero_Time, Some x, Some err), c)
      \<and> ApplyPattern_tags w fs c zero_Time (Some x) path fileTags pat
          = Returns (Inr (rendered_name w fs c zero_Time x path fileTags pat))
      \<and> (if ArgsDryRun w
          then ApplyPattern_files w (path # files) fileTags pat c fs events
               = ApplyPattern_files w files fileTags pat c fs
                   (events @ [Printed path (rendered_name w fs c zero_Time x path fileTags pat)])
          else ApplyPattern_files w (path # files) fileTags pat c fs events
               = (case os_Rename w fs path (rendered_name w fs c zero_Time x path fileTags pat) of
                    Inl err \<Rightarrow>
                      \<lparr>collector_of = c, filesystem_of = fs, events_of = events,
                        ending_of = Returned (Some err)\<rparr>
                  | Inr fs' \<Rightarrow>
                      ApplyPattern_files w files fileTags pat c fs'
                        (events @ [Renamed path
                           (rendered_name w fs c zero_Time x path fileTags pat)]))))
   \<and> (os_Stat w fs path = Inr fileMeta \<longrightarrow>
        GetTagValue w fs c zero_Time ex path ''File.IndexByCaptureYear''
          = Returns (Sprintf_0d 6 (index_int (ByYear c) 1), None)
        \<and> GetTagValue w fs c zero_Time ex path ''File.IndexByCaptureMonth''
          = Returns (Sprintf_0d 6 (index_int (index_map (ByMonth c) 1) 1), None)
        \<and> GetTagValue w fs c zero_Time ex path ''File.IndexByCaptureDate''
          = Returns (Sprintf_0d 6 (index_int (index_map (index_map (ByDay c) 1) 1) 1), None)
        \<and> (adds_in_year timestamps 1 = 0 \<longrightarrow>
             GetTagValue w fs (AddAll NewDateIndexCollector timestamps) zero_Time ex path
               ''File.IndexByCaptureYear'' = Returns (''000000'', None)
             \<and> GetTagValue w fs (AddAll NewDateIndexCollector timestamps) zero_Time ex path
               ''File.IndexByCaptureMonth'' = Returns (''000000'', None)
             \<and> GetTagValue w fs (AddAll NewDateIndexCollector timestamps) zero_Time ex path
               ''File.IndexByCaptureDate'' = Returns (''000000'', None)))
   \<and> take (length events) (events_of (ApplyPattern_files w files fileTags pat c fs events))
       = events"
proof (intro conjI impI)
  assume capture: "GetFileCaptureTime w fs path = Returns (t, Some x, Some err)"
  then show zero: "t = zero_Time"
    by (rule capture_error_zero_time)
  show inc: "IncrementCaptureIndex w fs path c = Returns ((zero_Time, Some x, Some err), c)"
    using capture zero capture_error_no_Add [of w fs path t "Some x" err c] by simp
  show "ApplyPattern_tags w fs c zero_Time (Some x) path fileTags pat
      = Returns (Inr (rendered_name w fs c zero_Time x path fileTags pat))"
    by (rule ApplyPattern_tags_rendered)
  show "if ArgsDryRun w
        then ApplyPattern_files w (path # files) fileTags pat c fs events
             = ApplyPattern_files w files fileTags pat c fs
                 (events @ [Printed path (rendered_name w fs c zero_Time x path fileTags pat)])
        else ApplyPattern_files w (path # files) fileTags pat c fs events
             = (case os_Rename w fs path (rendered_name w fs c zero_Time x path fileTags pat) of
                  Inl err \<Rightarrow>
                    \<lparr>collector_of = c, filesystem_of = fs, events_of = events,
                      ending_of = Returned (Some err)\<rparr>
                | Inr fs' \<Rightarrow>
                    ApplyPattern_files w files fileTags pat c fs'
                      (events @ [Renamed path
                         (rendered_name w fs c zero_Time x path fileTags pat)]))"
    using files_step_dry [OF _ inc] files_step_rename [OF _ inc] by simp
next
  assume stat: "os_Stat w fs path = Inr fileMeta"
  show "GetTagValue w fs c zero_Time ex path ''File.IndexByCaptureYear''
      = Returns (Sprintf_0d 6 (index_int (ByYear c) 1), None)"
    using GetTagValue_index_tags(1) [OF stat, of c zero_Time ex] by (simp add: zero_Time_fields)
  show "GetTagValue w fs c zero_Time ex path ''File.IndexByCaptureMonth''
      = Returns (Sprintf_0d 6 (index_int (index_map (ByMonth c) 1) 1), None)"
    using GetTagValue_index_tags(2) [OF stat, of c zero_Time ex] by (simp add: zero_Time_fields)
  show "GetTagValue w fs c zero_Time ex path ''File.IndexByCaptureDate''
      = Returns (Sprintf_0d 6 (index_int (index_map (index_map (ByDay c) 1) 1) 1), None)"
    using GetTagValue_index_tags(3) [OF stat, of c zero_Time ex] by (simp add: zero_Time_fields)
  assume none: "adds_in_year timestamps 1 = 0"
  show "GetTagValue w fs (AddAll NewDateIndexCollector timestamps) zero_Time ex path
      ''File.IndexByCaptureYear'' = Returns (''000000'', None)"
    using GetTagValue_index_tags(1) [OF stat, of "AddAll NewDateIndexCollector timestamps"
        zero_Time ex]
    by (simp add: zero_Time_fields zero_year_buckets [OF none] formatted_numbers)
  show "GetTagValue w fs (AddAll NewDateIndexCollector timestamps) zero_Time ex path
      ''File.IndexByCaptureMonth'' = Returns (''000000'', None)"
    using GetTagValue_index_tags(2) [OF stat, of "AddAll NewDateIndexCollector timestamps"
        zero_Time ex]
    by (simp add: zero_Time_fields zero_year_buckets [OF none] formatted_numbers)
  show "GetTagValue w fs (AddAll NewDateIndexCollector timestamps) zero_Time ex path
      ''File.IndexByCaptureDate'' = Returns (''000000'', None)"
    using GetTagValue_index_tags(3) [OF stat, of "AddAll NewDateIndexCollector timestamps"
        zero_Time ex]
    by (simp add: zero_Time_fields zero_year_buckets [OF none] formatted_numbers)
next
  show "take (length events) (events_of (ApplyPattern_files w files fileTags pat c fs events))
      = events"
    by (rule files_events_extend)
qed

theorem undetermined_capture_time_witness:
  "GetFileCaptureTime (example_world True) () ''n.jpg''
     = Returns (zero_Time, Some ''n.jpg'', Some ''exif: tag is not present'')
   \<and> IncrementCaptureIndex (example_world True) () ''n.jpg''
        (AddAll NewDateIndexCollector [Date_UTC 2016 3 4 10 0 0])
       = Returns ((zero_Time, Some ''n.jpg'', Some ''exif: tag is not present''),
                  AddAll NewDateIndexCollector [Date_UTC 2016 3 4 10 0 0])
   \<and> ArgsDryRun (example_world True)
   \<and> ApplyPattern_files (example_world True) [''n.jpg''] [''File.IndexByCaptureDate'']
        ''{File.IndexByCaptureDate}'' (AddAll NewDateIndexCollector [Date_UTC 2016 3 4 10 0 0])
        () [Printed ''a.jpg'' ''000001'']
       = \<lparr>collector_of = AddAll NewDateIndexCollector [Date_UTC 2016 3 4 10 0 0],
          filesystem_of = (),
          events_of = [Printed ''a.jpg'' ''000001'', Printed ''n.jpg'' ''000000''],
          ending_of = Returned None\<rparr>
   \<and> os_Stat (example_world True) () ''n.jpg''
       = Inr \<lparr>Name = ''n.jpg'', Size = 1024, ModTime = Date_UTC 2016 3 5 12 30 0\<rparr>
   \<and> adds_in_year [Date_UTC 2016 3 4 10 0 0] 1 = 0
   \<and> GetTagValue (example_world True) () (AddAll NewDateIndexCollector [Date_UTC 2016 3 4 10 0 0])
        zero_Time (Some ''n.jpg'') ''n.jpg'' ''File.IndexByCaptureDate''
       = Returns (''000000'', None)"
proof -
  have none: "adds_in_year [Date_UTC 2016 3 4 10 0 0] 1 = 0"
    by (simp add: adds_in_year_def Date_UTC_fields)
  have stat: "os_Stat (example_world True) () ''n.jpg''
      = Inr \<lparr>Name = ''n.jpg'', Size = 1024, ModTime = Date_UTC 2016 3 5 12 30 0\<rparr>"
    by (simp add: example_stat)
  have name: "rendered_name (example_world True) ()
        (AddAll NewDateIndexCollector [Date_UTC 2016 3 4 10 0 0]) zero_Time ''n.jpg''
        ''n.jpg'' [''File.IndexByCaptureDate''] ''{File.IndexByCaptureDate}'' = ''000000''"
    by (simp add: example_rendered_index zero_Time_fields zero_year_buckets [OF none]
        formatted_numbers example_replaced)
  show ?thesis
    using undetermined_capture_time [where w = "example_world True" and fs = "()"
        and path = "''n.jpg''" and t = zero_Time and x = "''n.jpg''"
        and ex = "Some ''n.jpg''"
        and err = "''exif: tag is not present''"
        and c = "AddAll NewDateIndexCollector [Date_UTC 2016 3 4 10 0 0]"
        and fileTags = "[''File.IndexByCaptureDate'']" and pat = "''{File.IndexByCaptureDate}''"
        and files = "[]" and events = "[Printed ''a.jpg'' ''000001'']"
        and fileMeta = "\<lparr>Name = ''n.jpg'', Size = 1024, ModTime = Date_UTC 2016 3 5 12 30 0\<rparr>"
        and timestamps = "[Date_UTC 2016 3 4 10 0 0]"]
    by (simp add: example_capture example_flag stat none name files_Nil
        zero_year_buckets [OF none] formatted_numbers)
qed

lemma example_replaced_scenario:
  "ReplaceTagInPattern
     (ReplaceTagInPattern
        (ReplaceTagInPattern
           (ReplaceTagInPattern
              ''{DateTime.Year}{DateTime.Month}_{File.IndexByCaptureDate}.{File.Extension}''
              ''DateTime.Year'' ''2016'')
           ''DateTime.Month'' ''03'')
        ''File.IndexByCaptureDate'' ''000002'')
     ''File.Extension'' ''jpg'' = ''201603_000002.jpg''"
  by code_simp

lemma scenario_tags:
  "ExtractFileOutputTags
     ''{DateTime.Year}{DateTime.Month}_{File.IndexByCaptureDate}.{File.Extension}''
   = [''DateTime.Year'', ''DateTime.Month'', ''File.IndexByCaptureDate'', ''File.Extension'']"
  by code_simp

text \<open>
  Claim C9. A file that opens and decodes, whose \<open>DateTime\<close> is
  2016:03:04 10:00:00 (the parser gives a time in year 2016, month 3, day 4), whose name
  has the extension \<open>.jpg\<close>, and which comes when the collector has counted one file
  of that day: its timestamp is added to the collector, and the template
  \<open>{DateTime.Year}{DateTime.Month}_{File.IndexByCaptureDate}.{File.Extension}\<close>,
  with the tags that \<open>ExtractFileOutputTags\<close> finds in it, renders to
  \<open>201603_000002.jpg\<close>; a dry run prints that name and goes on.
\<close>

theorem second_file_of_the_day:
  assumes "os_Open w fs path = None"
    and "exif_Decode w fs path = (Some x, None)"
    and "exif_Get w x ''DateTime'' = Inr (Inr ''2016:03:04 10:00:00'')"
    and "time_Parse w ''2016:03:04 10:00:00'' = Inr t"
    and "Year t = 2016 \<and> Month t = 3 \<and> Day t = 4"
    and "fst (GetIndexByDay c t) = 1"
    and "os_Stat w fs path = Inr fileMeta"
    and "filepath_Ext (Name fileMeta) = ''.jpg''"
  shows "IncrementCaptureIndex w fs path c = Returns ((t, Some x, None), Add c t)
     \<and> fst (GetIndexByDay (Add c t) t) = 2
     \<and> ApplyPattern_tags w fs (Add c t) t (Some x) path
         (ExtractFileOutputTags
            ''{DateTime.Year}{DateTime.Month}_{File.IndexByCaptureDate}.{File.Extension}'')
         ''{DateTime.Year}{DateTime.Month}_{File.IndexByCaptureDate}.{File.Extension}''
        = Returns (Inr ''201603_000002.jpg'')
     \<and> (if ArgsDryRun w
         then ApplyPattern_files w (path # files)
                (ExtractFileOutputTags
                   ''{DateTime.Year}{DateTime.Month}_{File.IndexByCaptureDate}.{File.Extension}'')
                ''{DateTime.Year}{DateTime.Month}_{File.IndexByCaptureDate}.{File.Extension}''
                c fs events
              = ApplyPattern_files w files
                  (ExtractFileOutputTags
                     ''{DateTime.Year}{DateTime.Month}_{File.IndexByCaptureDate}.{File.Extension}'')
                  ''{DateTime.Year}{DateTime.Month}_{File.IndexByCaptureDate}.{File.Extension}''
                  (Add c t) fs (events @ [Printed path ''201603_000002.jpg''])
         else True)"
proof -
  have capture: "GetFileCaptureTime w fs path = Returns (t, Some x, None)"
    using assms(1-4)
    by (simp add: GetFileCaptureTime_def GetExifData_def Exif_Get_def StringVal_def)
  have inc: "IncrementCaptureIndex w fs path c = Returns ((t, Some x, None), Add c t)"
    using capture by (rule capture_ok_Add)
  have before: "index_int (index_map (index_map (ByDay c) (Year t)) (Month t)) (Day t) = 1"
    using assms(6) by (simp add: lookup_day)
  have after: "index_int (index_map (index_map (ByDay (Add c t)) (Year t)) (Month t)) (Day t) = 2"
    using before by (simp add: day_Add)
  have idx: "fst (GetIndexByDay (Add c t) t) = 2"
    using after by (simp add: lookup_day)
  have counted: "index_int (index_map (index_map (ByDay (Add c t)) 2016) 3) 4 = 2"
    using after assms(5) by simp
  have name: "rendered_name w fs (Add c t) t x path
        [''DateTime.Year'', ''DateTime.Month'', ''File.IndexByCaptureDate'', ''File.Extension'']
        ''{DateTime.Year}{DateTime.Month}_{File.IndexByCaptureDate}.{File.Extension}''
      = ''201603_000002.jpg''"
    using assms(5)
    by (simp add: rendered_name_def
        tag_value_eq [OF GetTagValue_timestamp_tags(1) [OF assms(3) assms(4)]]
        tag_value_eq [OF GetTagValue_timestamp_tags(2) [OF assms(3) assms(4)]]
        tag_value_eq [OF GetTagValue_index_tags(3) [OF assms(7)]]
        tag_value_eq [OF GetTagValue_extension [OF assms(7)]] counted
        assms(8) formatted_numbers example_extension example_replaced_scenario)
  show ?thesis
    using files_step_dry [OF _ inc]
    by (simp add: inc idx scenario_tags ApplyPattern_tags_rendered name
        del: ApplyPattern_tags.simps)
qed

theorem second_file_of_the_day_witness:
  "os_Open (example_world True) () ''b.jpg'' = None
   \<and> exif_Decode (example_world True) () ''b.jpg'' = (Some ''b.jpg'', None)
   \<and> exif_Get (example_world True) ''b.jpg'' ''DateTime''
       = Inr (Inr ''2016:03:04 10:00:00'')
   \<and> time_Parse (example_world True) ''2016:03:04 10:00:00'' = Inr (Date_UTC 2016 3 4 10 0 0)
   \<and> fst (GetIndexByDay (Add NewDateIndexCollector (Date_UTC 2016 3 4 10 0 0))
        (Date_UTC 2016 3 4 10 0 0)) = 1
   \<and> filepath_Ext ''b.jpg'' = ''.jpg''
   \<and> events_of (ApplyPattern_files (example_world True) [''b.jpg'']
        (ExtractFileOutputTags
           ''{DateTime.Year}{DateTime.Month}_{File.IndexByCaptureDate}.{File.Extension}'')
        ''{DateTime.Year}{DateTime.Month}_{File.IndexByCaptureDate}.{File.Extension}''
        (Add NewDateIndexCollector (Date_UTC 2016 3 4 10 0 0)) ()
        [Printed ''a.jpg'' ''201603_000001.jpg''])
       = [Printed ''a.jpg'' ''201603_000001.jpg'', Printed ''b.jpg'' ''201603_000002.jpg'']"
proof -
  have opened: "os_Open (example_world True) () ''b.jpg'' = None"
    by (simp add: example_world_def)
  have decoded: "exif_Decode (example_world True) () ''b.jpg'' = (Some ''b.jpg'', None)"
    by (simp add: example_world_def)
  have got: "exif_Get (example_world True) ''b.jpg'' ''DateTime''
      = Inr (Inr ''2016:03:04 10:00:00'')"
    by (simp add: example_world_def example_Get_def)
  have parsed: "time_Parse (example_world True) ''2016:03:04 10:00:00''
      = Inr (Date_UTC 2016 3 4 10 0 0)"
    by (simp add: example_world_def example_Parse_def)
  have fields: "Year (Date_UTC 2016 3 4 10 0 0) = 2016 \<and> Month (Date_UTC 2016 3 4 10 0 0) = 3
      \<and> Day (Date_UTC 2016 3 4 10 0 0) = 4"
    by (simp add: Date_UTC_fields)
  have first: "fst (GetIndexByDay (Add NewDateIndexCollector (Date_UTC 2016 3 4 10 0 0))
      (Date_UTC 2016 3 4 10 0 0)) = 1"
    by (simp add: lookup_day example_day_index Date_UTC_fields)
  have stat: "os_Stat (example_world True) () ''b.jpg''
      = Inr \<lparr>Name = ''b.jpg'', Size = 1024, ModTime = Date_UTC 2016 3 5 12 30 0\<rparr>"
    by (simp add: example_stat)
  have ext: "filepath_Ext (Name \<lparr>Name = ''b.jpg'', Size = 1024,
      ModTime = Date_UTC 2016 3 5 12 30 0\<rparr>) = ''.jpg''"
    by (simp add: filepath_Ext_def)
  show ?thesis
    using second_file_of_the_day [OF opened decoded got parsed fields first stat ext,
        of "[]" "[Printed ''a.jpg'' ''201603_000001.jpg'']"]
    by (simp add: opened decoded got parsed first example_flag files_Nil)
       (simp add: filepath_Ext_def)
qed

subsection \<open>The nil exif pointer\<close>

lemma loop_at_nil_pointer:
  assumes "fst (ParseTagProperties outputTag) \<noteq> ''File''"
  shows "GetTagValue_loop w fs c t None filePath (outputTag # rest) tagValue = Panics"
  using assms
  by (simp add: loop_step resolve_alternative_def GetExifTagValue_nil
      del: GetTagValue_loop.simps)

text \<open>
  Claim C1 at a file that opens but holds no exif data, with the tag group
  \<open>File.Name|Make\<close>. Decoding fails, so the exif pointer is nil, and \<open>ApplyPattern\<close>
  passes it on. The first alternative resolves to the file name; the second calls
  \<open>Get\<close> on the nil pointer, and the run ends in a panic with nothing printed: the
  earlier value is not kept and \<open>GetTagValue\<close> does not return. Against exif data
  that is decoded the same group does what the claim says: on \<open>n.jpg\<close>, which has no
  \<open>Make\<close>, the second alternative fails and the file name stays.
\<close>

theorem nil_exif_alternative_panics:
  "GetFileCaptureTime (example_world True) () ''plain.jpg''
     = Returns (zero_Time, None, Some ''exif: failed to find exif intro marker'')
   \<and> resolve_alternative (example_world True) () NewDateIndexCollector zero_Time None
        ''plain.jpg'' ''File.Name'' = Returns (Inr ''plain.jpg'')
   \<and> resolve_alternative (example_world True) () NewDateIndexCollector zero_Time None
        ''plain.jpg'' ''Make'' = Panics
   \<and> GetTagValue (example_world True) () NewDateIndexCollector zero_Time None ''plain.jpg''
        ''File.Name|Make'' = Panics
   \<and> GetTagValue (example_world True) () NewDateIndexCollector zero_Time (Some ''n.jpg'')
        ''n.jpg'' ''File.Name|Make'' = Returns (''n.jpg'', None)
   \<and> events_of (ApplyPattern (example_world True) () [''plain.jpg'', ''a.jpg'']
        [''File.Name|Make''] ''{File.Name|Make}'') = []
   \<and> ending_of (ApplyPattern (example_world True) () [''plain.jpg'', ''a.jpg'']
        [''File.Name|Make''] ''{File.Name|Make}'') = Panicked"
proof -
  have split: "strings_Split ''File.Name|Make'' (CHR ''|'') = [''File.Name'', ''Make'']"
    by simp
  have parsed: "ParseTagProperties ''File.Name'' = (''File'', [''Name''])"
    "ParseTagProperties ''Make'' = (''Make'', [])"
    by (simp_all add: ParseTagProperties_def)
  have name: "GetFileTagValue (example_world True) () NewDateIndexCollector zero_Time f
      ''File'' [''Name''] = Inr f" if "f \<noteq> ''missing.jpg''" for f
    using that by (simp add: GetFileTagValue_def FileProp_def example_stat)
  have first: "resolve_alternative (example_world True) () NewDateIndexCollector zero_Time None
      ''plain.jpg'' ''File.Name'' = Returns (Inr ''plain.jpg'')"
    by (simp add: resolve_alternative_def parsed name)
  have second: "resolve_alternative (example_world True) () NewDateIndexCollector zero_Time None
      ''plain.jpg'' ''Make'' = Panics"
    by (simp add: resolve_alternative_def parsed GetExifTagValue_nil)
  have absent: "GetExifTagValue (example_world True) (Some ''n.jpg'') ''Make'' []
      = Returns (Inl ''exif: tag is not present'')"
    by (simp add: GetExifTagValue_def Exif_Get_def example_world_def example_Get_def)
  have nil: "GetTagValue (example_world True) () NewDateIndexCollector zero_Time None
      ''plain.jpg'' ''File.Name|Make'' = Panics"
    by (simp add: GetTagValue_def split parsed name GetExifTagValue_nil)
  have decoded: "GetTagValue (example_world True) () NewDateIndexCollector zero_Time
      (Some ''n.jpg'') ''n.jpg'' ''File.Name|Make'' = Returns (''n.jpg'', None)"
    by (simp add: GetTagValue_def split parsed name absent)
  have run: "ApplyPattern (example_world True) () [''plain.jpg'', ''a.jpg'']
        [''File.Name|Make''] ''{File.Name|Make}''
      = \<lparr>collector_of = NewDateIndexCollector, filesystem_of = (), events_of = [],
         ending_of = Panicked\<rparr>"
    by (simp add: ApplyPattern_def ApplyPattern_files.simps example_increment nil)
  show ?thesis
    by (simp add: example_capture first second nil decoded run)
qed

end
